theory Spec2Isabelle
  imports Main "HOL-Library.AList"
begin

section \<open>Python values, errors and strings\<close>

text \<open>
  The values the two modules handle. A zero-argument callable is represented by the
  value its call returns (\<open>PCallable\<close>); \<open>PMethod\<close> is the bound method of that name
  of a record instance, as attribute lookup on the instance returns it; floating-point
  values do not occur in any property below and are left out.
\<close>

datatype pyval =
    PNone
  | PBool bool
  | PInt int
  | PStr string
  | PTuple "pyval list"
  | PList "pyval list"
  | PDict "(string \<times> pyval) list"
  | PCallable pyval
  | PMethod string

text \<open>
  A message is a format string with its \<open>%\<close> arguments. Arguments that are strings are
  substituted where the source builds a string that is used later (the SQL templates, the
  text of a bad-request response); the others are kept beside the format.
\<close>

type_synonym message = "string \<times> pyval list"

datatype error =
    NameError string
  | KeyError string
  | IndexError
  | ValueError message
  | TypeError string
  | APIError pyval pyval pyval
  | Raised string

text \<open>\<open>sep.join(L)\<close>.\<close>

fun join :: "string \<Rightarrow> string list \<Rightarrow> string" where
  "join sep [] = []"
| "join sep [x] = x"
| "join sep (x # y # ys) = x @ sep @ join sep (y # ys)"

text \<open>\<open>sql.replace('?', '%s')\<close>: every placeholder marker becomes the driver's marker.\<close>

definition replace_marker :: "string \<Rightarrow> string" where
  "replace_marker sql = concat (map (\<lambda>c. if c = CHR ''?'' then ''%s'' else [c]) sql)"

text \<open>The number of placeholder markers of a statement.\<close>

definition placeholders :: "string \<Rightarrow> nat" where
  "placeholders sql = count_list sql (CHR ''?'')"

section \<open>orm.py: fields and the model metaclass\<close>

text \<open>
  \<open>create_args_string(num)\<close>: the loop appends one marker per iteration of
  \<open>range(num)\<close>; \<open>num\<close> is a length at its only call.
\<close>

fun append_markers :: "nat \<Rightarrow> string list \<Rightarrow> string list" where
  "append_markers 0 L = L"
| "append_markers (Suc n) L = append_markers n (L @ [''?''])"

definition create_args_string :: "nat \<Rightarrow> string" where
  "create_args_string num = join '', '' (append_markers num [])"

text \<open>
  \<open>class Field\<close>: \<open>cls\<close> is the name of the object's class, which \<open>__str__\<close> prints.
\<close>

record field =
  cls :: string
  name :: "string option"
  column_type :: string
  primary_key :: bool
  default_value :: pyval

definition Field :: "string option \<Rightarrow> string \<Rightarrow> bool \<Rightarrow> pyval \<Rightarrow> field" where
  "Field n ct pk d =
     \<lparr>cls = ''Field'', name = n, column_type = ct, primary_key = pk, default_value = d\<rparr>"

text \<open>
  The subclasses, with every argument given: the defaults of the source are
  \<open>name=None\<close>, \<open>primary_key=False\<close>, \<open>ddl='varchar(100)'\<close>, and for \<open>default\<close>
  \<open>None\<close> (string, text), \<open>False\<close> (boolean), \<open>0\<close> (integer).
\<close>

definition StringField :: "string option \<Rightarrow> bool \<Rightarrow> pyval \<Rightarrow> string \<Rightarrow> field" where
  "StringField n pk d ddl = (Field n ddl pk d)\<lparr>cls := ''StringField''\<rparr>"

definition BooleanField :: "string option \<Rightarrow> pyval \<Rightarrow> field" where
  "BooleanField n d = (Field n ''boolean'' False d)\<lparr>cls := ''BooleanField''\<rparr>"

definition IntegerField :: "string option \<Rightarrow> bool \<Rightarrow> pyval \<Rightarrow> field" where
  "IntegerField n pk d = (Field n ''bigint'' pk d)\<lparr>cls := ''IntegerField''\<rparr>"

definition FloatField :: "string option \<Rightarrow> bool \<Rightarrow> pyval \<Rightarrow> field" where
  "FloatField n pk d = (Field n ''real'' pk d)\<lparr>cls := ''FloatField''\<rparr>"

definition TextField :: "string option \<Rightarrow> pyval \<Rightarrow> field" where
  "TextField n d = (Field n ''text'' False d)\<lparr>cls := ''TextField''\<rparr>"

text \<open>\<open>Field.__str__\<close>.\<close>

definition field_str :: "field \<Rightarrow> string" where
  "field_str f =
     ''<'' @ cls f @ '', '' @ column_type f @ '':''
       @ (case name f of None \<Rightarrow> ''None'' | Some n \<Rightarrow> n) @ ''>''"

text \<open>
  An attribute of a class body: a \<open>Field\<close> object, a string, or any other object, of
  which the metaclass uses only the truth value and the \<open>str()\<close>.
\<close>

datatype attr = AField field | AStr string | AObj bool string

fun attr_truthy :: "attr \<Rightarrow> bool" where
  "attr_truthy (AField f) = True"
| "attr_truthy (AStr s) = (s \<noteq> [])"
| "attr_truthy (AObj b s) = b"

fun attr_str :: "attr \<Rightarrow> string" where
  "attr_str (AField f) = field_str f"
| "attr_str (AStr s) = s"
| "attr_str (AObj b s) = s"

text \<open>The truth value of \<open>primaryKey\<close>, which is \<open>None\<close> or an attribute name.\<close>

fun truthy_name :: "string option \<Rightarrow> bool" where
  "truthy_name None = False"
| "truthy_name (Some k) = (k \<noteq> [])"

text \<open>
  The loop over \<open>attrs.items()\<close> (lines 115-125). \<open>attrs\<close> is the class namespace, a
  dictionary in declaration order, given as an association list; \<open>mappings[k] = v\<close> is
  the dictionary update; \<open>ms\<close>, \<open>fs\<close> and \<open>pk\<close> are the variables \<open>mappings\<close>,
  \<open>fields\<close> and \<open>primaryKey\<close>. The name \<open>StandardError\<close> is unbound in Python 3, so
  evaluating \<open>raise StandardError(...)\<close> raises \<open>NameError\<close>.
\<close>

fun scan_attrs ::
  "(string \<times> attr) list \<Rightarrow> (string \<times> field) list \<Rightarrow> string list \<Rightarrow> string option
     \<Rightarrow> error + ((string \<times> field) list \<times> string list \<times> string option)" where
  "scan_attrs [] ms fs pk = Inr (ms, fs, pk)"
| "scan_attrs ((k, AField v) # rest) ms fs pk =
     (if primary_key v then
        (if truthy_name pk then Inl (NameError ''StandardError'')
         else scan_attrs rest (AList.update k v ms) fs (Some k))
      else scan_attrs rest (AList.update k v ms) (fs @ [k]) pk)"
| "scan_attrs ((k, AStr s) # rest) ms fs pk = scan_attrs rest ms fs pk"
| "scan_attrs ((k, AObj b s) # rest) ms fs pk = scan_attrs rest ms fs pk"

text \<open>
  The attributes the metaclass stores on a model class: \<open>__mappings__\<close>, \<open>__table__\<close>,
  \<open>__primary_key__\<close>, \<open>__fields__\<close>, \<open>__select__\<close>, \<open>__insert__\<close>, \<open>__update__\<close> and
  \<open>__delete__\<close>.
\<close>

record schema =
  s_mappings :: "(string \<times> field) list"
  s_table :: string
  s_primary_key :: string
  s_fields :: "string list"
  s_select :: string
  s_insert :: string
  s_update :: string
  s_delete :: string

text \<open>
  The class the metaclass returns: the base class \<open>Model\<close> unchanged, or a model class
  with the attributes that are left after the fields are popped, and its schema.
\<close>

datatype model_class =
    Plain "(string \<times> attr) list"
  | Mapped "(string \<times> attr) list" schema

text \<open>\<open>'`%s`' % f\<close> and \<open>'`%s`=?' % (mappings.get(f).name or f)\<close>.\<close>

definition escaped :: "string \<Rightarrow> string" where
  "escaped f = ''`'' @ f @ ''`''"

definition column_name :: "(string \<times> field) list \<Rightarrow> string \<Rightarrow> string" where
  "column_name ms f =
     (case map_of ms f of
        None \<Rightarrow> f
      | Some v \<Rightarrow> (case name v of None \<Rightarrow> f | Some n \<Rightarrow> if n = [] then f else n))"

definition set_clause :: "(string \<times> field) list \<Rightarrow> string \<Rightarrow> string" where
  "set_clause ms f = ''`'' @ column_name ms f @ ''`=?''"

text \<open>\<open>attrs.get('__table__', None) or name\<close>, as it is formatted by \<open>%s\<close>.\<close>

definition table_of :: "string \<Rightarrow> (string \<times> attr) list \<Rightarrow> string" where
  "table_of cname attrs =
     (case map_of attrs ''__table__'' of
        None \<Rightarrow> cname
      | Some v \<Rightarrow> if attr_truthy v then attr_str v else cname)"

text \<open>
  \<open>ModelMetaclass.__new__(cls, name, bases, attrs)\<close>. Its \<open>logging.info\<close> calls have no
  part in what it returns or raises and are left out.
\<close>

definition ModelMetaclass_new :: "string \<Rightarrow> (string \<times> attr) list \<Rightarrow> error + model_class" where
  "ModelMetaclass_new cname attrs =
     (if cname = ''Model'' then Inr (Plain attrs)
      else
        (case scan_attrs attrs [] [] None of
           Inl e \<Rightarrow> Inl e
         | Inr (ms, fs, pk0) \<Rightarrow>
             (case pk0 of
                None \<Rightarrow> Inl (NameError ''StandardError'')
              | Some pk \<Rightarrow>
                  if pk = [] then Inl (NameError ''StandardError'')
                  else
                    let t = table_of cname attrs;
                        escaped_fields = map escaped fs
                    in Inr (Mapped
                         (filter (\<lambda>(k, v). k \<notin> set (map fst ms)) attrs)
                         \<lparr>s_mappings = ms,
                          s_table = t,
                          s_primary_key = pk,
                          s_fields = fs,
                          s_select = ''select `'' @ pk @ ''`, '' @ join '', '' escaped_fields
                                         @ '' from `'' @ t @ ''`'',
                          s_insert = ''insert into `'' @ t @ ''` ('' @ join '', '' escaped_fields
                                         @ '', `'' @ pk @ ''`) values (''
                                         @ create_args_string (length escaped_fields + 1) @ '')'',
                          s_update = ''update `'' @ t @ ''` set ''
                                         @ join '', '' (map (set_clause ms) fs)
                                         @ '' where `'' @ pk @ ''`=?'',
                          s_delete = ''delete from `'' @ t @ ''` where `'' @ pk @ ''`=?''\<rparr>))))"

section \<open>orm.py: the query executor\<close>

text \<open>
  The database driver and the connection pool are outside the repository. The driver is
  a parameter: what it answers to a statement and its arguments, an exception or the
  result rows and the affected-row count. The world records what the code does to its
  surroundings: whether \<open>create_pool\<close> has bound the global \<open>__pool\<close>, how many
  connections are checked out, the statements sent to the driver, and the log records.
\<close>

datatype level = DEBUG | INFO | WARNING

type_synonym row = "(string \<times> pyval) list"

record reply =
  result_rows :: "row list"
  rowcount :: int

type_synonym driver = "string \<Rightarrow> pyval list \<Rightarrow> error + reply"

record world =
  pool :: bool
  in_use :: nat
  issued :: "(string \<times> pyval list) list"
  logged :: "(level \<times> message) list"

definition logging :: "level \<Rightarrow> message \<Rightarrow> world \<Rightarrow> world" where
  "logging l m w = w\<lparr>logged := logged w @ [(l, m)]\<rparr>"

text \<open>\<open>log(sql, args=())\<close>.\<close>

definition log :: "string \<Rightarrow> world \<Rightarrow> world" where
  "log sql w = logging INFO (''SQL: %s'', [PStr sql]) w"

text \<open>
  Entering and leaving \<open>with (yield from __pool) as conn\<close>: a connection is checked
  out and, however the block ends, given back.
\<close>

definition acquire :: "world \<Rightarrow> world" where
  "acquire w = w\<lparr>in_use := Suc (in_use w)\<rparr>"

definition release :: "world \<Rightarrow> world" where
  "release w = w\<lparr>in_use := in_use w - 1\<rparr>"

definition send :: "string \<Rightarrow> pyval list \<Rightarrow> world \<Rightarrow> world" where
  "send sql args w = w\<lparr>issued := issued w @ [(sql, args)]\<rparr>"

text \<open>
  \<open>cur.fetchmany(size)\<close> gives the next \<open>size\<close> rows, or as many as there are;
  \<open>cur.fetchall()\<close> gives all of them.
\<close>

definition fetchmany :: "nat \<Rightarrow> row list \<Rightarrow> row list" where
  "fetchmany n rs = take n rs"

text \<open>
  \<open>select(sql, args, size=None)\<close>. \<open>size\<close> (here \<open>sz\<close>) is \<open>None\<close> or a natural number,
  and \<open>if size\<close> holds of the numbers other than 0; \<open>args\<close> is
  \<open>None\<close> or a list, and \<open>args or ()\<close> is the empty sequence for both \<open>None\<close> and the
  empty list.
\<close>

definition select ::
  "driver \<Rightarrow> string \<Rightarrow> pyval list option \<Rightarrow> nat option \<Rightarrow> world \<Rightarrow> (error + row list) \<times> world" where
  "select db sql args sz w =
     (let w1 = log sql w
      in if \<not> pool w1 then (Inl (NameError ''__pool''), w1)
         else
           let stmt = replace_marker sql;
               params = (case args of None \<Rightarrow> [] | Some a \<Rightarrow> a);
               w2 = send stmt params (acquire w1)
           in (case db stmt params of
                 Inl e \<Rightarrow> (Inl e, release w2)
               | Inr r \<Rightarrow>
                   let rs = (case sz of
                               None \<Rightarrow> result_rows r
                             | Some n \<Rightarrow> if n \<noteq> 0 then fetchmany n (result_rows r)
                                         else result_rows r);
                       w3 = logging INFO (''rows returned: %s'', [PInt (int (length rs))]) w2
                   in (Inr rs, release w3)))"

text \<open>\<open>execute(sql, args)\<close>.\<close>

definition execute ::
  "driver \<Rightarrow> string \<Rightarrow> pyval list \<Rightarrow> world \<Rightarrow> (error + int) \<times> world" where
  "execute db sql args w =
     (let w1 = log sql w
      in if \<not> pool w1 then (Inl (NameError ''__pool''), w1)
         else
           let stmt = replace_marker sql;
               w2 = send stmt args (acquire w1)
           in (case db stmt args of
                 Inl e \<Rightarrow> (Inl e, release w2)
               | Inr r \<Rightarrow> (Inr (rowcount r), release w2)))"

section \<open>orm.py: the active record\<close>

text \<open>
  A record instance is a dictionary from names to values; \<open>__setattr__\<close> stores into the
  dictionary, so the instance has no attributes of its own.
\<close>

type_synonym model = "string \<rightharpoonup> pyval"

text \<open>
  The methods that \<open>class Model\<close> defines, and the methods of \<open>dict\<close>, its base class.
\<close>

definition Model_names :: "string list" where
  "Model_names =
     [''getValue'', ''getValueOrDefault'', ''findAll'', ''findNumber'', ''find'', ''save'',
      ''update'', ''remove'']"

definition dict_names :: "string list" where
  "dict_names =
     [''clear'', ''copy'', ''fromkeys'', ''get'', ''items'', ''keys'', ''pop'', ''popitem'',
      ''setdefault'', ''update'', ''values'']"

text \<open>
  \<open>getattr(self, key, None)\<close>. Ordinary attribute lookup comes first: it finds the
  attributes of the model class itself, then the methods of \<open>Model\<close> and of \<open>dict\<close>, and
  the special names (\<open>__x__\<close>) of the classes. Only when it finds nothing is
  \<open>__getattr__\<close> called, which reads the dictionary; its \<open>AttributeError\<close> for a missing
  key gives the default \<open>None\<close>. What lookup finds beside the methods named above is
  the parameter \<open>others\<close>: the attributes that the class body and the metaclass leave on
  the model class, and the special names.
\<close>

type_synonym lookup = "string \<Rightarrow> pyval option"

definition getattr_or_None :: "lookup \<Rightarrow> model \<Rightarrow> string \<Rightarrow> pyval" where
  "getattr_or_None others self key =
     (case others key of
        Some v \<Rightarrow> v
      | None \<Rightarrow>
          if key \<in> set Model_names \<or> key \<in> set dict_names then PMethod key
          else (case self key of None \<Rightarrow> PNone | Some v \<Rightarrow> v))"

text \<open>\<open>getValue(self, key)\<close>.\<close>

definition getValue :: "lookup \<Rightarrow> model \<Rightarrow> string \<Rightarrow> pyval" where
  "getValue others self key = getattr_or_None others self key"

text \<open>\<open>field.default() if callable(field.default) else field.default\<close>.\<close>

fun use_default :: "pyval \<Rightarrow> pyval" where
  "use_default (PCallable r) = r"
| "use_default d = d"

text \<open>\<open>getValueOrDefault(self, key)\<close>; it may set the attribute and write a log record.\<close>

definition getValueOrDefault ::
  "lookup \<Rightarrow> schema \<Rightarrow> string \<Rightarrow> model \<Rightarrow> world \<Rightarrow> (error + pyval) \<times> model \<times> world" where
  "getValueOrDefault others c key self w =
     (let v = getattr_or_None others self key
      in if v = PNone then
           (case map_of (s_mappings c) key of
              None \<Rightarrow> (Inl (KeyError key), self, w)
            | Some fld \<Rightarrow>
                if default_value fld \<noteq> PNone then
                  let v' = use_default (default_value fld)
                  in (Inr v', self(key \<mapsto> v'),
                      logging DEBUG (''using default value for %s: %s'', [PStr key, v']) w)
                else (Inr v, self, w))
         else (Inr v, self, w))"

text \<open>\<open>list(map(self.getValueOrDefault, self.__fields__))\<close>, from left to right.\<close>

fun getValuesOrDefault ::
  "lookup \<Rightarrow> schema \<Rightarrow> string list \<Rightarrow> model \<Rightarrow> world
     \<Rightarrow> (error + pyval list) \<times> model \<times> world" where
  "getValuesOrDefault others c [] self w = (Inr [], self, w)"
| "getValuesOrDefault others c (k # ks) self w =
     (case getValueOrDefault others c k self w of
        (Inl e, self1, w1) \<Rightarrow> (Inl e, self1, w1)
      | (Inr v, self1, w1) \<Rightarrow>
          (case getValuesOrDefault others c ks self1 w1 of
             (Inl e, self2, w2) \<Rightarrow> (Inl e, self2, w2)
           | (Inr vs, self2, w2) \<Rightarrow> (Inr (v # vs), self2, w2)))"

text \<open>The check after each statement: \<open>if rows != 1: logging.warn(...)\<close>.\<close>

definition check_rows :: "string \<Rightarrow> int \<Rightarrow> world \<Rightarrow> world" where
  "check_rows fmt rows w = (if rows \<noteq> 1 then logging WARNING (fmt, [PInt rows]) w else w)"

text \<open>\<open>save(self)\<close>.\<close>

definition save ::
  "lookup \<Rightarrow> driver \<Rightarrow> schema \<Rightarrow> model \<Rightarrow> world \<Rightarrow> (error + unit) \<times> model \<times> world" where
  "save others db c self w =
     (case getValuesOrDefault others c (s_fields c) self w of
        (Inl e, self1, w1) \<Rightarrow> (Inl e, self1, w1)
      | (Inr args, self1, w1) \<Rightarrow>
          (case getValueOrDefault others c (s_primary_key c) self1 w1 of
             (Inl e, self2, w2) \<Rightarrow> (Inl e, self2, w2)
           | (Inr v, self2, w2) \<Rightarrow>
               (case execute db (s_insert c) (args @ [v]) w2 of
                  (Inl e, w3) \<Rightarrow> (Inl e, self2, w3)
                | (Inr rows, w3) \<Rightarrow>
                    (Inr (), self2,
                     check_rows ''failed to insert record: affected rows: %s'' rows w3))))"

text \<open>\<open>update(self)\<close>.\<close>

definition update ::
  "lookup \<Rightarrow> driver \<Rightarrow> schema \<Rightarrow> model \<Rightarrow> world \<Rightarrow> (error + unit) \<times> model \<times> world" where
  "update others db c self w =
     (let args = map (getValue others self) (s_fields c)
                   @ [getValue others self (s_primary_key c)]
      in case execute db (s_update c) args w of
           (Inl e, w1) \<Rightarrow> (Inl e, self, w1)
         | (Inr rows, w1) \<Rightarrow>
             (Inr (), self,
              check_rows ''failed to update by primary key: affected rows: %s'' rows w1))"

text \<open>\<open>remove(self)\<close>.\<close>

definition remove ::
  "lookup \<Rightarrow> driver \<Rightarrow> schema \<Rightarrow> model \<Rightarrow> world \<Rightarrow> (error + unit) \<times> model \<times> world" where
  "remove others db c self w =
     (let args = [getValue others self (s_primary_key c)]
      in case execute db (s_delete c) args w of
           (Inl e, w1) \<Rightarrow> (Inl e, self, w1)
         | (Inr rows, w1) \<Rightarrow>
             (Inr (), self,
              check_rows ''failed to remove by primary key: affected rows: %s'' rows w1))"

text \<open>
  \<open>findAll(cls, where=None, args=None, **kw)\<close>, up to the call of \<open>select\<close>: the
  statement and its arguments, or the error. \<open>where\<close> and \<open>orderBy\<close> are \<open>None\<close> or
  strings and \<open>args\<close> is \<open>None\<close> or a list; \<open>limit\<close> is any value.
  \<open>isinstance(limit, int)\<close> holds of integers and of booleans.
\<close>





section \<open>lxfweb.py: the parameters of a handler\<close>

text \<open>
  \<open>inspect.signature(fn).parameters\<close>: the parameters in order, each with its name, its
  kind and whether it has a default (\<open>param.default\<close> is not \<open>inspect.Parameter.empty\<close>).
\<close>

datatype kind =
  POSITIONAL_ONLY | POSITIONAL_OR_KEYWORD | VAR_POSITIONAL | KEYWORD_ONLY | VAR_KEYWORD

record param =
  pname :: string
  pkind :: kind
  has_default :: bool

text \<open>
  A request, as far as the adapter reads it: \<open>http_method\<close> is \<open>request.method\<close>,
  \<open>post\<close> lists the pairs of a multidict, which may repeat a key, and \<open>json\<close> and
  \<open>post\<close> are what
  \<open>yield from request.json()\<close> and \<open>yield from request.post()\<close> give, a value or an
  exception.
\<close>

record request =
  http_method :: string
  content_type :: string
  json :: "error + pyval"
  post :: "error + (string \<times> pyval) list"
  query_string :: string
  match_info :: "(string \<times> string) list"

text \<open>A keyword argument is a value or the request object itself.\<close>

datatype kwval = Val pyval | Req request

type_synonym kwargs = "string \<rightharpoonup> kwval"

text \<open>
  A handler function: its name, its parameters, and what calling it with keyword
  arguments does (\<open>body\<close>), which is to return a value or to raise.
\<close>

record fn =
  fn_name :: string
  params :: "param list"
  body :: "kwargs \<Rightarrow> error + pyval"

fun required_kw_loop :: "param list \<Rightarrow> string list \<Rightarrow> string list" where
  "required_kw_loop [] args = args"
| "required_kw_loop (p # ps) args =
     (if pkind p = KEYWORD_ONLY \<and> \<not> has_default p then required_kw_loop ps (args @ [pname p])
      else required_kw_loop ps args)"

definition get_required_kw_args :: "fn \<Rightarrow> string list" where
  "get_required_kw_args f = required_kw_loop (params f) []"

fun named_kw_loop :: "param list \<Rightarrow> string list \<Rightarrow> string list" where
  "named_kw_loop [] args = args"
| "named_kw_loop (p # ps) args =
     (if pkind p = KEYWORD_ONLY then named_kw_loop ps (args @ [pname p])
      else named_kw_loop ps args)"

definition get_named_kw_args :: "fn \<Rightarrow> string list" where
  "get_named_kw_args f = named_kw_loop (params f) []"

text \<open>
  \<open>has_named_kw_args\<close> and \<open>has_var_kw_arg\<close> return \<open>True\<close> or fall off the end
  (\<open>None\<close>); only the truth value is used.
\<close>

fun has_kind :: "kind \<Rightarrow> param list \<Rightarrow> bool" where
  "has_kind k [] = False"
| "has_kind k (p # ps) = (if pkind p = k then True else has_kind k ps)"

definition has_named_kw_args :: "fn \<Rightarrow> bool" where
  "has_named_kw_args f = has_kind KEYWORD_ONLY (params f)"

definition has_var_kw_arg :: "fn \<Rightarrow> bool" where
  "has_var_kw_arg f = has_kind VAR_KEYWORD (params f)"

text \<open>
  \<open>has_request_arg(fn)\<close>: the loop with its flag \<open>found\<close>. The message is formatted with
  the function's name and the text of its signature; the name is kept.
\<close>

fun request_loop :: "string \<Rightarrow> bool \<Rightarrow> param list \<Rightarrow> error + bool" where
  "request_loop fname found [] = Inr found"
| "request_loop fname found (p # ps) =
     (if pname p = ''request'' then request_loop fname True ps
      else if found \<and> (pkind p \<noteq> VAR_POSITIONAL \<and> pkind p \<noteq> KEYWORD_ONLY
                       \<and> pkind p \<noteq> VAR_KEYWORD)
      then Inl (ValueError
             (''request parameter must be the last named parameter in function: %s%s'',
              [PStr fname]))
      else request_loop fname found ps)"

definition has_request_arg :: "fn \<Rightarrow> error + bool" where
  "has_request_arg f = request_loop (fn_name f) False (params f)"

section \<open>lxfweb.py: the request handler\<close>

text \<open>
  \<open>RequestHandler.__init__(self, app, fn)\<close>: the attributes \<open>_func\<close>,
  \<open>_has_request_arg\<close>, \<open>_has_var_kw_arg\<close>, \<open>_has_named_kw_args\<close>, \<open>_named_kw_args\<close> and
  \<open>_required_kw_args\<close>, computed once; the exception of \<open>has_request_arg\<close> leaves it.
\<close>

record handler =
  h_func :: fn
  h_has_request_arg :: bool
  h_has_var_kw_arg :: bool
  h_has_named_kw_args :: bool
  h_named_kw_args :: "string list"
  h_required_kw_args :: "string list"

definition RequestHandler_init :: "fn \<Rightarrow> error + handler" where
  "RequestHandler_init f =
     (case has_request_arg f of
        Inl e \<Rightarrow> Inl e
      | Inr b \<Rightarrow>
          Inr \<lparr>h_func = f,
               h_has_request_arg = b,
               h_has_var_kw_arg = has_var_kw_arg f,
               h_has_named_kw_args = has_named_kw_args f,
               h_named_kw_args = get_named_kw_args f,
               h_required_kw_args = get_required_kw_args f\<rparr>)"

text \<open>
  How a call of the handler ends: an exception leaves it before the function is called;
  or the function is called with the keyword arguments, and the call returns a value or
  raises. The \<open>logging\<close> calls of \<open>__call__\<close> have no part in how it ends and are left
  out.
\<close>

datatype outcome =
    Failed error
  | Invoked kwargs "error + pyval"

text \<open>
  \<open>web.HTTPBadRequest(msg)\<close>, as the module writes it, with the message as a positional
  argument. The class is the library's: its constructor takes keyword arguments only
  (\<open>headers\<close>, \<open>reason\<close>, \<open>body\<close>, \<open>text\<close>, \<open>content_type\<close>), so the call raises
  \<open>TypeError\<close> and makes no response. The revision of the module that the file keeps in
  comments passes \<open>text=\<close>, and says why.
\<close>

definition HTTPBadRequest :: "string \<Rightarrow> outcome" where
  "HTTPBadRequest msg =
     Failed (TypeError ''__init__() takes 1 positional argument but 2 were given'')"

text \<open>\<open>str.lower()\<close> on the ASCII letters, and \<open>str.startswith\<close>.\<close>

definition lower_char :: "char \<Rightarrow> char" where
  "lower_char c =
     (case map_of (zip ''ABCDEFGHIJKLMNOPQRSTUVWXYZ'' ''abcdefghijklmnopqrstuvwxyz'') c of
        None \<Rightarrow> c
      | Some l \<Rightarrow> l)"

definition lower :: "string \<Rightarrow> string" where
  "lower s = map lower_char s"

definition startswith :: "string \<Rightarrow> string \<Rightarrow> bool" where
  "startswith s p = (take (length p) s = p)"

text \<open>The loops that store into a dictionary, later entries last.\<close>

definition store_all :: "(string \<times> kwval) list \<Rightarrow> kwargs \<Rightarrow> kwargs" where
  "store_all xs kw = fold (\<lambda>(k, v) m. m(k \<mapsto> v)) xs kw"

definition as_vals :: "(string \<times> pyval) list \<Rightarrow> (string \<times> kwval) list" where
  "as_vals xs = map (\<lambda>(k, v). (k, Val v)) xs"

definition as_strs :: "(string \<times> string) list \<Rightarrow> (string \<times> kwval) list" where
  "as_strs xs = map (\<lambda>(k, v). (k, Val (PStr v))) xs"

text \<open>
  \<open>dict(**params)\<close> for the multidict that \<open>request.post()\<close> returns: each key once,
  with the first of its values.
\<close>

definition dict_of :: "(string \<times> pyval) list \<Rightarrow> kwargs" where
  "dict_of ps = map_of (as_vals ps)"

text \<open>
  \<open>for k, v in parse.parse_qs(qs, True).items(): kw[k] = v[0]\<close>; \<open>v[0]\<close> raises
  \<open>IndexError\<close> on an empty list.
\<close>

fun first_values :: "(string \<times> string list) list \<Rightarrow> kwargs \<Rightarrow> error + kwargs" where
  "first_values [] kw = Inr kw"
| "first_values ((k, []) # rest) kw = Inl IndexError"
| "first_values ((k, x # xs) # rest) kw = first_values rest (kw(k \<mapsto> Val (PStr x)))"

text \<open>
  Lines 89-110 of \<open>__call__\<close>: the keyword mapping read from the body or the query
  string, \<open>None\<close> when there is none. \<open>parse_qs\<close> is the library function
  \<open>urllib.parse.parse_qs(qs, True)\<close>, a parameter.
\<close>

definition read_kw ::
  "handler \<Rightarrow> (string \<Rightarrow> (string \<times> string list) list) \<Rightarrow> request \<Rightarrow> outcome + kwargs option" where
  "read_kw h parse_qs req =
     (if h_has_var_kw_arg h \<or> h_has_named_kw_args h \<or> h_required_kw_args h \<noteq> [] then
        (if http_method req = ''POST'' then
           (if content_type req = [] then Inl (HTTPBadRequest ''Missing Content-Type.'')
            else
              let ct = lower (content_type req)
              in if startswith ct ''application/json'' then
                   (case json req of
                      Inl e \<Rightarrow> Inl (Failed e)
                    | Inr (PDict d) \<Rightarrow> Inr (Some (store_all (as_vals d) Map.empty))
                    | Inr _ \<Rightarrow> Inl (HTTPBadRequest ''JSON body must be object.''))
                 else if startswith ct ''application/x-www-form-urlencoded''
                         \<or> startswith ct ''multipart/form-data'' then
                   (case post req of
                      Inl e \<Rightarrow> Inl (Failed e)
                    | Inr ps \<Rightarrow> Inr (Some (dict_of ps)))
                 else Inl (HTTPBadRequest (''Unsupported Content-Type: '' @ content_type req)))
         else if http_method req = ''GET'' then
           (if query_string req \<noteq> [] then
              (case first_values (parse_qs (query_string req)) Map.empty of
                 Inl e \<Rightarrow> Inl (Failed e)
               | Inr kw \<Rightarrow> Inr (Some kw))
            else Inr None)
         else Inr None)
      else Inr None)"

text \<open>The loop that copies the named keyword arguments (lines 116-120).\<close>

fun copy_named :: "string list \<Rightarrow> kwargs \<Rightarrow> kwargs \<Rightarrow> kwargs" where
  "copy_named [] kw copy = copy"
| "copy_named (n # ns) kw copy =
     (case kw n of
        None \<Rightarrow> copy_named ns kw copy
      | Some v \<Rightarrow> copy_named ns kw (copy(n \<mapsto> v)))"

text \<open>
  Lines 111-125: the path parameters alone, or stored last into the mapping, which is
  first cut down to the named keyword arguments when the function has some and takes
  no \<open>**kw\<close>.
\<close>

definition merge_match_info :: "handler \<Rightarrow> request \<Rightarrow> kwargs option \<Rightarrow> kwargs" where
  "merge_match_info h req kw0 =
     (case kw0 of
        None \<Rightarrow> store_all (as_strs (match_info req)) Map.empty
      | Some kw \<Rightarrow>
          let kw1 = (if \<not> h_has_var_kw_arg h \<and> h_named_kw_args h \<noteq> []
                     then copy_named (h_named_kw_args h) kw Map.empty else kw)
          in store_all (as_strs (match_info req)) kw1)"

text \<open>Lines 89-127: the keyword mapping after \<open>request\<close> is stored into it.\<close>

definition bind_kw ::
  "handler \<Rightarrow> (string \<Rightarrow> (string \<times> string list) list) \<Rightarrow> request \<Rightarrow> outcome + kwargs" where
  "bind_kw h parse_qs req =
     (case read_kw h parse_qs req of
        Inl out \<Rightarrow> Inl out
      | Inr kw0 \<Rightarrow>
          let kw = merge_match_info h req kw0
          in Inr (if h_has_request_arg h then kw(''request'' \<mapsto> Req req) else kw))"

text \<open>The first required name that is missing (lines 129-132).\<close>

fun missing_arg :: "string list \<Rightarrow> kwargs \<Rightarrow> string option" where
  "missing_arg [] kw = None"
| "missing_arg (n # ns) kw = (if kw n = None then Some n else missing_arg ns kw)"

text \<open>
  The call of the function (lines 134-138): an \<open>APIError\<close> becomes the dictionary
  \<open>dict(error=e.error, data=e.data, message=e.message)\<close>, any other exception goes on.
\<close>

definition call_func :: "fn \<Rightarrow> kwargs \<Rightarrow> error + pyval" where
  "call_func f kw =
     (case body f kw of
        Inl (APIError e d m) \<Rightarrow> Inr (PDict [(''error'', e), (''data'', d), (''message'', m)])
      | r \<Rightarrow> r)"

text \<open>\<open>RequestHandler.__call__(self, request)\<close>.\<close>

definition RequestHandler_call ::
  "handler \<Rightarrow> (string \<Rightarrow> (string \<times> string list) list) \<Rightarrow> request \<Rightarrow> outcome" where
  "RequestHandler_call h parse_qs req =
     (case bind_kw h parse_qs req of
        Inl out \<Rightarrow> out
      | Inr kw \<Rightarrow>
          (case missing_arg (h_required_kw_args h) kw of
             Some n \<Rightarrow> HTTPBadRequest (''Missing argument: '' @ n)
           | None \<Rightarrow> Invoked kw (call_func (h_func h) kw)))"

section \<open>Notions used in the statements\<close>

text \<open>
  The \<open>Field\<close> attributes of a class body in declaration order, the names of those marked
  \<open>primary_key\<close> and the names of the others.
\<close>

fun declared :: "(string \<times> attr) list \<Rightarrow> (string \<times> field) list" where
  "declared [] = []"
| "declared ((k, AField v) # rest) = (k, v) # declared rest"
| "declared ((k, AStr s) # rest) = declared rest"
| "declared ((k, AObj b s) # rest) = declared rest"

definition key_names :: "(string \<times> attr) list \<Rightarrow> string list" where
  "key_names attrs = map fst (filter (\<lambda>(k, v). primary_key v) (declared attrs))"

definition non_key_names :: "(string \<times> attr) list \<Rightarrow> string list" where
  "non_key_names attrs = map fst (filter (\<lambda>(k, v). \<not> primary_key v) (declared attrs))"

text \<open>Storing fields into the dictionary \<open>mappings\<close>, one after the other.\<close>

definition store_fields ::
  "(string \<times> field) list \<Rightarrow> (string \<times> field) list \<Rightarrow> (string \<times> field) list" where
  "store_fields ds ms = fold (\<lambda>(k, v). AList.update k v) ds ms"

text \<open>The schema of a class that the metaclass has built, if it has built one.\<close>

definition schema_of :: "error + model_class \<Rightarrow> schema option" where
  "schema_of r = (case r of Inr (Mapped rest c) \<Rightarrow> Some c | _ \<Rightarrow> None)"

text \<open>The columns that the set-clause of \<open>__update__\<close> names, in order.\<close>

definition update_columns :: "schema \<Rightarrow> string list" where
  "update_columns c = map (column_name (s_mappings c)) (s_fields c)"

section \<open>Example classes\<close>

text \<open>
  A class with a table name, a key whose default is a callable, a field with a column
  name of its own and a field with a constant default; a class with a key only; a class
  without a key; a class with two keys.
\<close>

definition user_attrs :: "(string \<times> attr) list" where
  "user_attrs =
     [(''__table__'', AStr ''users''),
      (''id'', AField (StringField None True (PCallable (PStr ''001'')) ''varchar(50)'')),
      (''name'', AField (StringField (Some ''user_name'') False PNone ''varchar(50)'')),
      (''admin'', AField (BooleanField None (PBool False)))]"

definition key_only_attrs :: "(string \<times> attr) list" where
  "key_only_attrs = [(''id'', AField (IntegerField None True (PInt 0)))]"



section \<open>Notions used in the statements about the executor\<close>

text \<open>The warnings among the log records.\<close>

definition warnings :: "world \<Rightarrow> (level \<times> message) list" where
  "warnings w = filter (\<lambda>(l, m). l = WARNING) (logged w)"

text \<open>
  The affected-row count that the driver reports for the statement sent last, if it
  reports one.
\<close>

definition reported :: "driver \<Rightarrow> world \<Rightarrow> int option" where
  "reported db w =
     (case rev (issued w) of
        [] \<Rightarrow> None
      | (stmt, args) # earlier \<Rightarrow>
          (case db stmt args of Inl e \<Rightarrow> None | Inr r \<Rightarrow> Some (rowcount r)))"



text \<open>
  A world with a pool and nothing done yet, a driver that answers every statement with
  the same rows and count, and two rows.
\<close>

definition idle :: world where
  "idle = \<lparr>pool = True, in_use = 0, issued = [], logged = []\<rparr>"

definition answer :: "row list \<Rightarrow> int \<Rightarrow> driver" where
  "answer rs n stmt args = Inr \<lparr>result_rows = rs, rowcount = n\<rparr>"

definition two_rows :: "row list" where
  "two_rows = [[(''id'', PInt 1)], [(''id'', PInt 2)]]"

text \<open>The schema of the first example class, and an instance that sets one field.\<close>

definition user_schema :: schema where
  "user_schema =
     \<lparr>s_mappings =
        [(''id'', StringField None True (PCallable (PStr ''001'')) ''varchar(50)''),
         (''name'', StringField (Some ''user_name'') False PNone ''varchar(50)''),
         (''admin'', BooleanField None (PBool False))],
      s_table = ''users'',
      s_primary_key = ''id'',
      s_fields = [''name'', ''admin''],
      s_select = ''select `id`, `name`, `admin` from `users`'',
      s_insert = ''insert into `users` (`name`, `admin`, `id`) values (?, ?, ?)'',
      s_update = ''update `users` set `user_name`=?, `admin`=? where `id`=?'',
      s_delete = ''delete from `users` where `id`=?''\<rparr>"

definition bob :: model where
  "bob = [''name'' \<mapsto> PStr ''Bob'']"

text \<open>
  A class with a field whose default is a callable and a field that is named as a method
  of \<open>dict\<close>, its schema, and an instance that sets no field.
\<close>

definition tag_attrs :: "(string \<times> attr) list" where
  "tag_attrs =
     [(''id'', AField (IntegerField None True (PInt 0))),
      (''label'', AField (StringField None False (PCallable (PStr ''new'')) ''varchar(50)'')),
      (''keys'', AField (StringField None False (PStr ''none'') ''varchar(50)''))]"

definition tag_schema :: schema where
  "tag_schema =
     \<lparr>s_mappings =
        [(''id'', IntegerField None True (PInt 0)),
         (''label'', StringField None False (PCallable (PStr ''new'')) ''varchar(50)''),
         (''keys'', StringField None False (PStr ''none'') ''varchar(50)'')],
      s_table = ''Tag'',
      s_primary_key = ''id'',
      s_fields = [''label'', ''keys''],
      s_select = ''select `id`, `label`, `keys` from `Tag`'',
      s_insert = ''insert into `Tag` (`label`, `keys`, `id`) values (?, ?, ?)'',
      s_update = ''update `Tag` set `label`=?, `keys`=? where `id`=?'',
      s_delete = ''delete from `Tag` where `id`=?''\<rparr>"

definition unset :: model where
  "unset = Map.empty"

text \<open>
  A model class on which ordinary lookup finds nothing beside the methods of \<open>Model\<close>
  and \<open>dict\<close>; and a driver that answers the statements that begin with one word and
  raises on the others.
\<close>

definition no_others :: lookup where
  "no_others key = None"

definition answers_only :: "string \<Rightarrow> int \<Rightarrow> driver" where
  "answers_only word n stmt args =
     (if startswith stmt word then Inr \<lparr>result_rows = [], rowcount = n\<rparr>
      else Inl (Raised ''OperationalError''))"

section \<open>Notions used in the statements about the handler\<close>

text \<open>
  The kinds that may follow \<open>request\<close>: \<open>*args\<close>, keyword-only and \<open>**kw\<close>. The other
  two are the plain positional kinds.
\<close>

fun after_request :: "kind \<Rightarrow> bool" where
  "after_request VAR_POSITIONAL = True"
| "after_request KEYWORD_ONLY = True"
| "after_request VAR_KEYWORD = True"
| "after_request POSITIONAL_ONLY = False"
| "after_request POSITIONAL_OR_KEYWORD = False"

text \<open>The error of a function whose \<open>request\<close> parameter is misplaced.\<close>

definition misplaced :: "fn \<Rightarrow> error" where
  "misplaced f =
     ValueError (''request parameter must be the last named parameter in function: %s%s'',
       [PStr (fn_name f)])"

text \<open>
  The first value of a key in the parsed query string, and the value of a key among the
  path parameters (of two entries for a key the later counts; a dictionary has one).
\<close>

definition query_value :: "(string \<times> string list) list \<Rightarrow> string \<Rightarrow> kwval option" where
  "query_value qs k =
     (case map_of (rev qs) k of Some (x # xs) \<Rightarrow> Some (Val (PStr x)) | _ \<Rightarrow> None)"

definition path_value :: "(string \<times> string) list \<Rightarrow> string \<Rightarrow> kwval option" where
  "path_value mi k = map_option (\<lambda>v. Val (PStr v)) (map_of (rev mi) k)"

text \<open>\<open>isinstance(v, dict)\<close>.\<close>

fun is_dict :: "pyval \<Rightarrow> bool" where
  "is_dict (PDict d) = True"
| "is_dict v = False"

text \<open>The names of the keyword-only parameters of a function, in order.\<close>

definition keyword_only_names :: "fn \<Rightarrow> string list" where
  "keyword_only_names f = map pname (filter (\<lambda>p. pkind p = KEYWORD_ONLY) (params f))"

section \<open>Example handlers and requests\<close>

definition a_param :: "string \<Rightarrow> kind \<Rightarrow> bool \<Rightarrow> param" where
  "a_param n k d = \<lparr>pname = n, pkind = k, has_default = d\<rparr>"

definition returns_none :: "kwargs \<Rightarrow> error + pyval" where
  "returns_none kw = Inr PNone"

definition a_fn :: "string \<Rightarrow> param list \<Rightarrow> fn" where
  "a_fn n ps = \<lparr>fn_name = n, params = ps, body = returns_none\<rparr>"

text \<open>\<open>def greet(*, name, email='')\<close>.\<close>

definition greet :: fn where
  "greet = a_fn ''greet''
     [a_param ''name'' KEYWORD_ONLY False, a_param ''email'' KEYWORD_ONLY True]"

text \<open>A request with a method, a content type and a query string, and nothing else.\<close>

definition a_request :: "string \<Rightarrow> string \<Rightarrow> string \<Rightarrow> request" where
  "a_request m ct qs =
     \<lparr>http_method = m, content_type = ct, json = Inr PNone, post = Inr [],
      query_string = qs, match_info = []\<rparr>"

text \<open>\<open>def search(page, *, name, email='')\<close>.\<close>

definition search :: fn where
  "search = a_fn ''search''
     [a_param ''page'' POSITIONAL_OR_KEYWORD False, a_param ''name'' KEYWORD_ONLY False,
      a_param ''email'' KEYWORD_ONLY True]"

text \<open>What \<open>parse_qs\<close> gives for one query string.\<close>

definition parsed :: "string \<Rightarrow> (string \<times> string list) list" where
  "parsed qs =
     (if qs = ''name=Bob&age=30&page=2''
      then [(''name'', [''Bob'']), (''age'', [''30'']), (''page'', [''2''])] else [])"

section \<open>Strings and placeholder markers\<close>

lemma append_markers_replicate: "append_markers n L = L @ replicate n ''?''"
  by (induction n arbitrary: L) (simp_all add: replicate_append_same)

lemma placeholders_Nil: "placeholders [] = 0"
  by (simp add: placeholders_def)

lemma placeholders_Cons:
  "placeholders (x # xs) = (if x = CHR ''?'' then Suc (placeholders xs) else placeholders xs)"
  by (simp add: placeholders_def)

lemma placeholders_append: "placeholders (a @ b) = placeholders a + placeholders b"
  by (induction a) (simp_all add: placeholders_def)

lemma placeholders_join:
  "placeholders (join sep xs) =
     sum_list (map placeholders xs) + (length xs - 1) * placeholders sep"
  by (induction sep xs rule: join.induct) (simp_all add: placeholders_append placeholders_def)

lemma join_snoc: "xs \<noteq> [] \<Longrightarrow> join sep (xs @ [y]) = join sep xs @ sep @ y"
  by (induction sep xs rule: join.induct) simp_all

lemma placeholders_args: "placeholders (create_args_string n) = n"
  by (simp add: create_args_string_def append_markers_replicate placeholders_join)
     (simp add: placeholders_def sum_list_replicate)

section \<open>The loop of the metaclass\<close>

lemma store_fields_simps [simp]:
  "store_fields [] ms = ms"
  "store_fields ((k, v) # ds) ms = store_fields ds (AList.update k v ms)"
  by (simp_all add: store_fields_def)

lemma key_names_simps [simp]:
  "key_names [] = []"
  "key_names ((k, AField v) # rest) =
     (if primary_key v then k # key_names rest else key_names rest)"
  "key_names ((k, AStr s) # rest) = key_names rest"
  "key_names ((k, AObj b s) # rest) = key_names rest"
  by (simp_all add: key_names_def)

lemma non_key_names_simps [simp]:
  "non_key_names [] = []"
  "non_key_names ((k, AField v) # rest) =
     (if primary_key v then non_key_names rest else k # non_key_names rest)"
  "non_key_names ((k, AStr s) # rest) = non_key_names rest"
  "non_key_names ((k, AObj b s) # rest) = non_key_names rest"
  by (simp_all add: non_key_names_def)

text \<open>Whenever the loop ends without an error, it has stored every field.\<close>

lemma scan_attrs_Inr:
  "scan_attrs attrs ms fs pk = Inr (ms', fs', pk') \<Longrightarrow>
     ms' = store_fields (declared attrs) ms \<and> fs' = fs @ non_key_names attrs
     \<and> (pk' = pk \<or> (\<exists>k. pk' = Some k \<and> k \<in> set (key_names attrs)))"
  by (induction attrs ms fs pk rule: scan_attrs.induct) (auto split: if_splits)



lemma map_of_store_fields:
  "map_of (store_fields ds ms) = map_of ms ++ map_of (rev ds)"
  by (induction ds arbitrary: ms)
     (auto simp: update_conv' map_add_def fun_eq_iff split: option.splits)

lemma map_of_rev_distinct: "distinct (map fst xs) \<Longrightarrow> map_of (rev xs) = map_of xs"
proof (induction xs)
  case (Cons x xs)
  obtain k v where x: "x = (k, v)" by (cases x)
  from Cons x have "k \<notin> fst ` set xs" by auto
  then have "map_of xs k = None" by (simp add: map_of_eq_None_iff)
  with Cons x show ?case
    by (auto simp: map_add_def fun_eq_iff split: option.splits)
qed simp

lemma fst_declared: "fst ` set (declared attrs) \<subseteq> fst ` set attrs"
  by (induction attrs rule: declared.induct) auto

lemma declared_iff: "(k, v) \<in> set (declared attrs) \<longleftrightarrow> (k, AField v) \<in> set attrs"
  by (induction attrs rule: declared.induct) auto

lemma distinct_declared: "distinct (map fst attrs) \<Longrightarrow> distinct (map fst (declared attrs))"
proof (induction attrs rule: declared.induct)
  case (2 k v rest)
  then show ?case using fst_declared [of rest] by auto
qed simp_all

lemma dom_store_fields: "dom (map_of (store_fields ds ms)) = fst ` set ms \<union> fst ` set ds"
  by (auto simp: map_of_store_fields dom_map_of_conv_image_fst)

lemma key_names_declared: "set (key_names attrs) \<subseteq> fst ` set (declared attrs)"
  by (auto simp: key_names_def)

lemma non_key_names_declared: "set (non_key_names attrs) \<subseteq> fst ` set (declared attrs)"
  by (auto simp: non_key_names_def)

text \<open>What a class that the metaclass has built carries.\<close>

lemma built_schema:
  assumes "ModelMetaclass_new cname attrs = Inr (Mapped rest c)"
  shows "s_mappings c = store_fields (declared attrs) []"
    and "s_fields c = non_key_names attrs"
    and "s_primary_key c \<in> set (key_names attrs)"
    and "s_table c = table_of cname attrs"
    and "s_insert c = ''insert into `'' @ s_table c @ ''` (''
           @ join '', '' (map escaped (s_fields c))
           @ '', `'' @ s_primary_key c @ ''`) values (''
           @ create_args_string (length (s_fields c) + 1) @ '')''"
    and "s_select c = ''select `'' @ s_primary_key c @ ''`, ''
           @ join '', '' (map escaped (s_fields c)) @ '' from `'' @ s_table c @ ''`''"
    and "s_update c = ''update `'' @ s_table c @ ''` set ''
           @ join '', '' (map (set_clause (s_mappings c)) (s_fields c))
           @ '' where `'' @ s_primary_key c @ ''`=?''"
    and "s_delete c = ''delete from `'' @ s_table c @ ''` where `'' @ s_primary_key c @ ''`=?''"
  using assms
  by (auto simp: ModelMetaclass_new_def Let_def
           split: if_splits sum.splits option.splits prod.splits dest!: scan_attrs_Inr)

lemma non_key_names_iff:
  "k \<in> set (non_key_names attrs) \<longleftrightarrow> (\<exists>v. (k, AField v) \<in> set attrs \<and> \<not> primary_key v)"
  by (induction attrs rule: declared.induct) auto

lemma built_mapping:
  assumes "ModelMetaclass_new cname attrs = Inr (Mapped rest c)"
    and "distinct (map fst attrs)" and "(k, AField f) \<in> set attrs"
  shows "map_of (s_mappings c) k = Some f"
proof -
  have d: "distinct (map fst (declared attrs))" using assms(2) by (rule distinct_declared)
  moreover have "(k, f) \<in> set (declared attrs)" using assms(3) by (simp add: declared_iff)
  ultimately have "map_of (declared attrs) k = Some f" by simp
  then show ?thesis
    using d by (simp add: built_schema(1) [OF assms(1)] map_of_store_fields map_of_rev_distinct)
qed

lemmas field_defs = StringField_def BooleanField_def IntegerField_def FloatField_def
  TextField_def Field_def

section \<open>The insert statement\<close>

text \<open>
  With at least one field beside the key, \<open>__insert__\<close> lists the fields in declared
  order, then the key, and as many markers as columns.
\<close>

lemma insert_sql_shape:
  assumes "ModelMetaclass_new cname attrs = Inr (Mapped rest c)" and "s_fields c \<noteq> []"
  shows "s_insert c = ''insert into `'' @ s_table c @ ''` (''
           @ join '', '' (map escaped (s_fields c @ [s_primary_key c]))
           @ '') values ('' @ join '', '' (replicate (length (s_fields c) + 1) ''?'') @ '')''"
    and "s_fields c = non_key_names attrs"
  using assms(2)
  by (simp_all add: built_schema [OF assms(1)] join_snoc escaped_def create_args_string_def
        append_markers_replicate)

text \<open>
  The markers of \<open>__insert__\<close> are one per column, beside those that the names
  themselves contain.
\<close>

lemma insert_sql_placeholders:
  assumes "ModelMetaclass_new cname attrs = Inr (Mapped rest c)"
  shows "placeholders (s_insert c) =
           length (s_fields c) + 1 + placeholders (s_table c)
             + sum_list (map placeholders (s_fields c)) + placeholders (s_primary_key c)"
proof -
  have e: "map (placeholders \<circ> escaped) xs = map placeholders xs" for xs
    by (simp add: escaped_def placeholders_append placeholders_Cons placeholders_Nil)
  have "placeholders (join '', '' (map escaped (s_fields c)))
          = sum_list (map placeholders (s_fields c))"
    by (simp add: placeholders_join e placeholders_Cons placeholders_Nil)
  then show ?thesis
    by (simp add: built_schema(5) [OF assms] placeholders_append placeholders_args
          placeholders_Cons placeholders_Nil)
qed

text \<open>
  C1. The insert statement of a model class lists the non-key columns in declared
  order, then the key, with one marker per column. For a class whose only field is
  its key the code writes the separator before the key all the same: the column list
  is \<open>(, `id`)\<close>, where one column and one marker, \<open>(`id`) values (?)\<close>, are meant.
\<close>

theorem insert_sql_key_only:
  "map_option s_insert (schema_of (ModelMetaclass_new ''T'' key_only_attrs))
     = Some ''insert into `T` (, `id`) values (?)''"
  by (simp add: ModelMetaclass_new_def schema_of_def key_only_attrs_def field_defs Let_def
        table_of_def create_args_string_def)

section \<open>The primary key\<close>



text \<open>
  The test \<open>if primaryKey\<close> takes a key whose attribute name is empty for no key: a
  namespace with such a name, which no class statement writes, gets a second key past it.
\<close>

lemma empty_name_two_keys:
  "map_option s_primary_key (schema_of (ModelMetaclass_new ''T''
      [('''', AField (IntegerField None True (PInt 0))),
       (''b'', AField (IntegerField None True (PInt 0)))])) = Some ''b''"
  by (simp add: ModelMetaclass_new_def schema_of_def field_defs Let_def)

section \<open>Column names\<close>

text \<open>
  C10. For a non-key field that is given a column name of its own, other than its
  attribute name, the set-clause of \<open>__update__\<close> names that column, while
  \<open>__select__\<close> and \<open>__insert__\<close> name the attribute: the update statement and the
  other two do not name the same columns.
\<close>

theorem column_names_differ:
  assumes "ModelMetaclass_new cname attrs = Inr (Mapped rest c)"
    and "distinct (map fst attrs)"
    and "(k, AField f) \<in> set attrs" and "\<not> primary_key f"
    and "name f = Some col" and "col \<noteq> []" and "col \<noteq> k"
  shows "k \<in> set (s_fields c)
     \<and> set_clause (s_mappings c) k = ''`'' @ col @ ''`=?''
     \<and> escaped k = ''`'' @ k @ ''`''
     \<and> s_update c = ''update `'' @ s_table c @ ''` set ''
           @ join '', '' (map (set_clause (s_mappings c)) (s_fields c))
           @ '' where `'' @ s_primary_key c @ ''`=?''
     \<and> s_select c = ''select `'' @ s_primary_key c @ ''`, ''
           @ join '', '' (map escaped (s_fields c)) @ '' from `'' @ s_table c @ ''`''
     \<and> s_insert c = ''insert into `'' @ s_table c @ ''` (''
           @ join '', '' (map escaped (s_fields c))
           @ '', `'' @ s_primary_key c @ ''`) values (''
           @ create_args_string (length (s_fields c) + 1) @ '')''
     \<and> update_columns c \<noteq> s_fields c"
proof -
  note b = built_schema [OF assms(1)]
  have in_fields: "k \<in> set (s_fields c)"
    using assms(3,4) by (auto simp: b(2) non_key_names_iff)
  have m: "map_of (s_mappings c) k = Some f" using assms(1,2,3) by (rule built_mapping)
  have cn: "column_name (s_mappings c) k = col"
    using m assms(5,6) by (simp add: column_name_def)
  have "update_columns c \<noteq> s_fields c"
  proof
    assume "update_columns c = s_fields c"
    then have "map (column_name (s_mappings c)) (s_fields c) = map id (s_fields c)"
      by (simp add: update_columns_def)
    then have "column_name (s_mappings c) k = id k"
      using in_fields by (simp only: map_eq_conv)
    with cn assms(7) show False by simp
  qed
  moreover have "set_clause (s_mappings c) k = ''`'' @ col @ ''`=?''"
    using cn by (simp add: set_clause_def)
  moreover have "escaped k = ''`'' @ k @ ''`''" by (simp add: escaped_def)
  ultimately show ?thesis
    using in_fields b(5) b(6) b(7) by (intro conjI) assumption+
qed

theorem column_names_differ_witness:
  "\<exists>rest c. ModelMetaclass_new ''User'' user_attrs = Inr (Mapped rest c)
     \<and> ''name'' \<in> set (s_fields c)
     \<and> set_clause (s_mappings c) ''name'' = ''`user_name`=?''
     \<and> escaped ''name'' = ''`name`''
     \<and> update_columns c \<noteq> s_fields c"
proof -
  obtain rest c where built: "ModelMetaclass_new ''User'' user_attrs = Inr (Mapped rest c)"
    by (simp add: ModelMetaclass_new_def user_attrs_def field_defs Let_def)
  have d: "distinct (map fst user_attrs)" by (simp add: user_attrs_def)
  have m: "(''name'', AField (StringField (Some ''user_name'') False PNone ''varchar(50)''))
             \<in> set user_attrs"
    by (simp add: user_attrs_def)
  have p: "\<not> primary_key (StringField (Some ''user_name'') False PNone ''varchar(50)'')"
    and n: "name (StringField (Some ''user_name'') False PNone ''varchar(50)'')
              = Some ''user_name''"
    by (simp_all add: field_defs)
  have "''user_name'' \<noteq> []" and "''user_name'' \<noteq> ''name''" by simp_all
  with column_names_differ [OF built d m p n] built show ?thesis by auto
qed

section \<open>The query executor\<close>

lemma placeholders_replace_marker: "placeholders (replace_marker sql) = 0"
  by (induction sql)
     (simp_all add: replace_marker_def placeholders_append placeholders_Cons placeholders_Nil)

lemma execute_pool:
  "pool w \<Longrightarrow>
   execute db sql args w =
     (map_sum id rowcount (db (replace_marker sql) args),
      w\<lparr>issued := issued w @ [(replace_marker sql, args)],
        logged := logged w @ [(INFO, (''SQL: %s'', [PStr sql]))]\<rparr>)"
  by (simp add: execute_def log_def logging_def send_def acquire_def release_def Let_def
        split: sum.splits)

lemma select_pool:
  "pool w \<Longrightarrow> db (replace_marker sql) (case args of None \<Rightarrow> [] | Some a \<Rightarrow> a) = Inr r \<Longrightarrow>
   select db sql args sz w =
     (Inr (case sz of None \<Rightarrow> result_rows r
           | Some n \<Rightarrow> if n = 0 then result_rows r else take n (result_rows r)),
      w\<lparr>issued := issued w @ [(replace_marker sql, case args of None \<Rightarrow> [] | Some a \<Rightarrow> a)],
        logged := logged w @ [(INFO, (''SQL: %s'', [PStr sql])),
          (INFO, (''rows returned: %s'',
             [PInt (int (length (case sz of None \<Rightarrow> result_rows r
           | Some n \<Rightarrow> if n = 0 then result_rows r else take n (result_rows r))))]))]\<rparr>)"
  by (simp add: select_def log_def logging_def send_def acquire_def release_def Let_def
        fetchmany_def split: option.splits)

text \<open>
  C9. When the driver answers the statement, \<open>select\<close> returns the rows it
  fetched: all rows when \<open>size\<close> is absent or 0, and otherwise the first \<open>size\<close> rows,
  or all of them when there are fewer. The statement is sent with every marker replaced
  by the driver's, and the connection is given back.
\<close>

theorem select_fetches:
  assumes "pool w"
    and "db (replace_marker sql) (case args of None \<Rightarrow> [] | Some a \<Rightarrow> a) = Inr r"
  shows "fst (select db sql args sz w) =
           Inr (case sz of
                  None \<Rightarrow> result_rows r
                | Some n \<Rightarrow> if n = 0 then result_rows r else take n (result_rows r))
     \<and> issued (snd (select db sql args sz w)) =
           issued w @ [(replace_marker sql, case args of None \<Rightarrow> [] | Some a \<Rightarrow> a)]
     \<and> placeholders (replace_marker sql) = 0
     \<and> in_use (snd (select db sql args sz w)) = in_use w"
  using assms
  by (simp add: select_pool [where db = db and sql = sql and args = args and r = r]
        placeholders_replace_marker)

theorem select_fetches_witness:
  "fst (select (answer two_rows 2) ''select `id` from `t` where `id`>?''
         (Some [PInt 0]) (Some 1) idle)
     = Inr [[(''id'', PInt 1)]]
   \<and> issued (snd (select (answer two_rows 2) ''select `id` from `t` where `id`>?''
         (Some [PInt 0]) (Some 1) idle))
     = [(''select `id` from `t` where `id`>%s'', [PInt 0])]
   \<and> in_use (snd (select (answer two_rows 2) ''select `id` from `t` where `id`>?''
         (Some [PInt 0]) (Some 1) idle)) = 0"
proof -
  have p: "pool idle" by (simp add: idle_def)
  have d: "answer two_rows 2 (replace_marker ''select `id` from `t` where `id`>?'')
             (case Some [PInt 0] of None \<Rightarrow> [] | Some a \<Rightarrow> a)
           = Inr \<lparr>result_rows = two_rows, rowcount = 2\<rparr>"
    by (simp add: answer_def)
  show ?thesis
    using select_fetches [where db = "answer two_rows 2" and w = idle
        and sql = "''select `id` from `t` where `id`>?''" and args = "Some [PInt 0]"
        and r = "\<lparr>result_rows = two_rows, rowcount = 2\<rparr>" and sz = "Some 1", OF p d]
    by (simp add: idle_def two_rows_def replace_marker_def)
qed

text \<open>
  C9 does not hold with "exactly \<open>size\<close> rows" for every \<open>size\<close> that is supplied: with
  \<open>size\<close> 0 the test \<open>if size\<close> fails and all rows are fetched, not none; with \<open>size\<close> 3
  and a result of two rows, two are fetched, not three.
\<close>

theorem select_size_counterexample:
  "fst (select (answer two_rows 2) ''select `id` from `t`'' None (Some 0) idle) = Inr two_rows
   \<and> length two_rows \<noteq> 0
   \<and> fst (select (answer two_rows 2) ''select `id` from `t`'' None (Some 3) idle) = Inr two_rows
   \<and> length two_rows \<noteq> 3"
  by (simp add: select_def answer_def idle_def two_rows_def log_def logging_def send_def
        acquire_def release_def fetchmany_def Let_def)

section \<open>The example schema\<close>

lemma user_built:
  "ModelMetaclass_new ''User'' user_attrs = Inr (Mapped [(''__table__'', AStr ''users'')] user_schema)"
  by (simp add: ModelMetaclass_new_def user_attrs_def user_schema_def field_defs Let_def
        table_of_def create_args_string_def escaped_def set_clause_def column_name_def)

section \<open>The limit of findAll\<close>







section \<open>save, update and remove\<close>

lemma tag_built:
  "ModelMetaclass_new ''Tag'' tag_attrs = Inr (Mapped [] tag_schema)"
  by (simp add: ModelMetaclass_new_def tag_attrs_def tag_schema_def field_defs Let_def
        table_of_def create_args_string_def escaped_def set_clause_def column_name_def)

lemma warnings_logging:
  "warnings (logging l m w) = warnings w @ (if l = WARNING then [(l, m)] else [])"
  by (simp add: warnings_def logging_def)

lemma check_rows_frame:
  "issued (check_rows f r w) = issued w" "in_use (check_rows f r w) = in_use w"
  "pool (check_rows f r w) = pool w"
  "warnings (check_rows f r w) = warnings w @ (if r \<noteq> 1 then [(WARNING, (f, [PInt r]))] else [])"
  by (simp_all add: check_rows_def logging_def warnings_def)

lemma reported_snoc:
  "issued w = xs @ [(stmt, args)] \<Longrightarrow>
   reported db w = (case db stmt args of Inl e \<Rightarrow> None | Inr r \<Rightarrow> Some (rowcount r))"
  by (simp add: reported_def)

text \<open>The common end of save, update and remove.\<close>

lemma finish:
  assumes "pool w"
    and "(case execute db sql args w of
            (Inl e, w1) \<Rightarrow> (Inl e, self, w1)
          | (Inr rows, w1) \<Rightarrow> (Inr (), self, check_rows f rows w1)) = (res, self', w')"
  shows "self' = self"
    and "issued w' = issued w @ [(replace_marker sql, args)]"
    and "in_use w' = in_use w"
    and "reported db w' = Some r \<Longrightarrow>
           res = Inr () \<and>
           warnings w' = warnings w @ (if r \<noteq> 1 then [(WARNING, (f, [PInt r]))] else [])"
proof -
  show "self' = self" using assms
    by (auto simp: execute_pool split: sum.splits)
  show i: "issued w' = issued w @ [(replace_marker sql, args)]" using assms
    by (cases "db (replace_marker sql) args") (auto simp: execute_pool check_rows_frame)
  show "in_use w' = in_use w" using assms
    by (cases "db (replace_marker sql) args") (auto simp: execute_pool check_rows_frame)
  assume "reported db w' = Some r"
  then obtain rep where rep: "db (replace_marker sql) args = Inr rep" "rowcount rep = r"
    by (auto simp: reported_snoc [OF i] split: sum.splits)
  with assms show "res = Inr () \<and>
           warnings w' = warnings w @ (if r \<noteq> 1 then [(WARNING, (f, [PInt r]))] else [])"
    by (auto simp: execute_pool check_rows_frame) (simp_all add: warnings_def)
qed

lemma getValueOrDefault_frame:
  "getValueOrDefault others c k self w = (r, self', w') \<Longrightarrow>
   pool w' = pool w \<and> issued w' = issued w \<and> in_use w' = in_use w \<and> warnings w' = warnings w"
  by (auto simp: getValueOrDefault_def Let_def logging_def warnings_def
           split: if_splits option.splits)

lemma getValueOrDefault_Inr:
  "map_of (s_mappings c) k \<noteq> None \<Longrightarrow> \<exists>v. fst (getValueOrDefault others c k self w) = Inr v"
  by (auto simp: getValueOrDefault_def Let_def split: if_splits option.splits)

lemma getValuesOrDefault_frame:
  "getValuesOrDefault others c ks self w = (r, self', w') \<Longrightarrow>
   pool w' = pool w \<and> issued w' = issued w \<and> in_use w' = in_use w \<and> warnings w' = warnings w"
proof (induction ks arbitrary: self w r self' w')
  case (Cons k ks)
  obtain r1 self1 w1 where 1: "getValueOrDefault others c k self w = (r1, self1, w1)"
    by (cases "getValueOrDefault others c k self w")
  note f1 = getValueOrDefault_frame [OF 1]
  show ?case
  proof (cases r1)
    case (Inl e)
    with Cons.prems 1 f1 show ?thesis by simp
  next
    case (Inr v)
    obtain r2 self2 w2 where 2: "getValuesOrDefault others c ks self1 w1 = (r2, self2, w2)"
      by (cases "getValuesOrDefault others c ks self1 w1")
    from Cons.IH [OF 2] f1 Cons.prems 1 Inr 2 show ?thesis
      by (cases r2) auto
  qed
qed simp

lemma getValuesOrDefault_Inr:
  "set ks \<subseteq> dom (map_of (s_mappings c)) \<Longrightarrow>
   \<exists>args. fst (getValuesOrDefault others c ks self w) = Inr args \<and> length args = length ks"
proof (induction ks arbitrary: self w)
  case (Cons k ks)
  then have "map_of (s_mappings c) k \<noteq> None" by auto
  from getValueOrDefault_Inr [OF this, of others self w]
  obtain v self1 w1 where 1: "getValueOrDefault others c k self w = (Inr v, self1, w1)"
    by (cases "getValueOrDefault others c k self w") auto
  from Cons have "set ks \<subseteq> dom (map_of (s_mappings c))" by simp
  from Cons.IH [OF this, of self1 w1]
  obtain args self2 w2 where 2: "getValuesOrDefault others c ks self1 w1 = (Inr args, self2, w2)"
    "length args = length ks"
    by (cases "getValuesOrDefault others c ks self1 w1") auto
  with 1 show ?case by simp
qed simp

text \<open>A field that reads as \<open>None\<close>, or as its default already, stays so.\<close>

lemma getValueOrDefault_keeps:
  assumes "map_of (s_mappings c) k = Some fld"
    and "getattr_or_None others self k = PNone
         \<or> getattr_or_None others self k = use_default (default_value fld)"
    and "getValueOrDefault others c k' self w = (r, self', w')"
  shows "getattr_or_None others self' k = PNone
         \<or> getattr_or_None others self' k = use_default (default_value fld)"
  using assms
  by (auto simp: getValueOrDefault_def getattr_or_None_def Let_def
        split: if_splits option.splits)

lemma getValueOrDefault_default:
  assumes "map_of (s_mappings c) k = Some fld" and "default_value fld \<noteq> PNone"
    and "getattr_or_None others self k = PNone
         \<or> getattr_or_None others self k = use_default (default_value fld)"
  shows "fst (getValueOrDefault others c k self w) = Inr (use_default (default_value fld))"
  using assms
  by (auto simp: getValueOrDefault_def Let_def split: if_splits option.splits)

lemma getValuesOrDefault_nth:
  assumes "map_of (s_mappings c) k = Some fld" and "default_value fld \<noteq> PNone"
  shows "getattr_or_None others self k = PNone
           \<or> getattr_or_None others self k = use_default (default_value fld) \<Longrightarrow>
     getValuesOrDefault others c ks self w = (Inr args, self', w') \<Longrightarrow>
     i < length ks \<Longrightarrow> ks ! i = k \<Longrightarrow>
     args ! i = use_default (default_value fld)"
proof (induction ks arbitrary: self w args self' w' i)
  case (Cons k' ks)
  obtain r1 self1 w1 where 1: "getValueOrDefault others c k' self w = (r1, self1, w1)"
    by (cases "getValueOrDefault others c k' self w")
  with Cons.prems(2) obtain v where v: "r1 = Inr v" by (cases r1) auto
  obtain r2 self2 w2 where 2: "getValuesOrDefault others c ks self1 w1 = (r2, self2, w2)"
    by (cases "getValuesOrDefault others c ks self1 w1")
  with Cons.prems(2) 1 v obtain vs where vs: "r2 = Inr vs" "args = v # vs"
    by (cases r2) auto
  show ?case
  proof (cases i)
    case 0
    with Cons.prems(4) have "k' = k" by simp
    with getValueOrDefault_default [OF assms Cons.prems(1), of w] 1 v vs 0
    show ?thesis by simp
  next
    case (Suc j)
    note keep = getValueOrDefault_keeps [OF assms(1) Cons.prems(1) 1]
    from Cons.prems(3,4) Suc have "j < length ks" "ks ! j = k" by simp_all
    from Cons.IH [OF keep 2 [unfolded vs(1)] this] vs Suc show ?thesis by simp
  qed
qed simp

lemma built_keys:
  assumes "ModelMetaclass_new cname attrs = Inr (Mapped rest c)"
  shows "set (s_fields c) \<subseteq> dom (map_of (s_mappings c))"
    and "map_of (s_mappings c) (s_primary_key c) \<noteq> None"
proof -
  note b = built_schema [OF assms]
  have d: "dom (map_of (s_mappings c)) = fst ` set (declared attrs)"
    by (simp add: b(1) dom_store_fields)
  show "set (s_fields c) \<subseteq> dom (map_of (s_mappings c))"
    using non_key_names_declared [of attrs] by (simp add: d b(2))
  have "s_primary_key c \<in> dom (map_of (s_mappings c))"
    using key_names_declared [of attrs] b(3) unfolding d by blast
  then show "map_of (s_mappings c) (s_primary_key c) \<noteq> None" by blast
qed

text \<open>The steps of \<open>save\<close> when every field and the key are in \<open>__mappings__\<close>.\<close>

lemma save_steps:
  assumes "set (s_fields c) \<subseteq> dom (map_of (s_mappings c))"
    and "map_of (s_mappings c) (s_primary_key c) \<noteq> None"
  obtains args self1 w1 v self2 w2 where
    "getValuesOrDefault others c (s_fields c) self w = (Inr args, self1, w1)"
    "length args = length (s_fields c)"
    "getValueOrDefault others c (s_primary_key c) self1 w1 = (Inr v, self2, w2)"
    "pool w2 = pool w" "issued w2 = issued w" "in_use w2 = in_use w" "warnings w2 = warnings w"
    "save others db c self w =
       (case execute db (s_insert c) (args @ [v]) w2 of
          (Inl e, w3) \<Rightarrow> (Inl e, self2, w3)
        | (Inr rows, w3) \<Rightarrow>
            (Inr (), self2, check_rows ''failed to insert record: affected rows: %s'' rows w3))"
proof -
  from getValuesOrDefault_Inr [OF assms(1), of others self w]
  obtain args self1 w1 where
    1: "getValuesOrDefault others c (s_fields c) self w = (Inr args, self1, w1)"
    "length args = length (s_fields c)"
    by (cases "getValuesOrDefault others c (s_fields c) self w") auto
  from getValueOrDefault_Inr [OF assms(2), of others self1 w1]
  obtain v self2 w2 where
    2: "getValueOrDefault others c (s_primary_key c) self1 w1 = (Inr v, self2, w2)"
    by (cases "getValueOrDefault others c (s_primary_key c) self1 w1") auto
  note f1 = getValuesOrDefault_frame [OF 1(1)] and f2 = getValueOrDefault_frame [OF 2]
  show thesis
    by (rule that [OF 1 2]) (simp_all add: f1 f2 save_def 1 2)
qed

text \<open>What each operation sends and how it ends, for a schema that the metaclass built.\<close>

lemma save_end:
  assumes "ModelMetaclass_new cname attrs = Inr (Mapped rest c)" and "pool w"
  shows "\<exists>args. issued (snd (snd (save others db c self w)))
                  = issued w @ [(replace_marker (s_insert c), args)]"
    and "reported db (snd (snd (save others db c self w))) = Some r \<Longrightarrow>
         fst (save others db c self w) = Inr ()
         \<and> warnings (snd (snd (save others db c self w))) =
             warnings w @ (if r \<noteq> 1
               then [(WARNING, (''failed to insert record: affected rows: %s'', [PInt r]))]
               else [])"
proof -
  note k = built_keys [OF assms(1)]
  obtain args self1 w1 v self2 w2 where
    w2: "pool w2 = pool w" "warnings w2 = warnings w" "issued w2 = issued w"
    and s: "save others db c self w =
       (case execute db (s_insert c) (args @ [v]) w2 of
          (Inl e, w3) \<Rightarrow> (Inl e, self2, w3)
        | (Inr rows, w3) \<Rightarrow>
            (Inr (), self2, check_rows ''failed to insert record: affected rows: %s'' rows w3))"
    by (rule save_steps [OF k, of others self w db]) blast
  obtain res self' w' where r: "save others db c self w = (res, self', w')"
    by (cases "save others db c self w")
  from assms(2) w2 have p2: "pool w2" by simp
  from finish(2) [OF p2 r [unfolded s]] r w2
  show "\<exists>args. issued (snd (snd (save others db c self w)))
                  = issued w @ [(replace_marker (s_insert c), args)]"
    by simp
  assume "reported db (snd (snd (save others db c self w))) = Some r"
  with finish(4) [OF p2 r [unfolded s], of r] r w2
  show "fst (save others db c self w) = Inr ()
         \<and> warnings (snd (snd (save others db c self w))) =
             warnings w @ (if r \<noteq> 1
               then [(WARNING, (''failed to insert record: affected rows: %s'', [PInt r]))]
               else [])"
    by simp
qed

lemma update_end:
  assumes "pool w"
  shows "issued (snd (snd (update others db c self w)))
           = issued w @ [(replace_marker (s_update c),
                map (getValue others self) (s_fields c)
                  @ [getValue others self (s_primary_key c)])]"
    and "fst (snd (update others db c self w)) = self"
    and "reported db (snd (snd (update others db c self w))) = Some r \<Longrightarrow>
         fst (update others db c self w) = Inr ()
         \<and> warnings (snd (snd (update others db c self w))) =
             warnings w @ (if r \<noteq> 1
               then [(WARNING,
                      (''failed to update by primary key: affected rows: %s'', [PInt r]))]
               else [])"
proof -
  obtain res self' w' where u: "update others db c self w = (res, self', w')"
    by (cases "update others db c self w")
  note f = finish [OF assms u [unfolded update_def Let_def]]
  from f(2) u show "issued (snd (snd (update others db c self w)))
           = issued w @ [(replace_marker (s_update c),
                map (getValue others self) (s_fields c)
                  @ [getValue others self (s_primary_key c)])]"
    by simp
  from f(1) u show "fst (snd (update others db c self w)) = self" by simp
  assume "reported db (snd (snd (update others db c self w))) = Some r"
  with f(4) [of r] u
  show "fst (update others db c self w) = Inr ()
         \<and> warnings (snd (snd (update others db c self w))) =
             warnings w @ (if r \<noteq> 1
               then [(WARNING,
                      (''failed to update by primary key: affected rows: %s'', [PInt r]))]
               else [])"
    by simp
qed

lemma remove_end:
  assumes "pool w"
  shows "issued (snd (snd (remove others db c self w)))
           = issued w @ [(replace_marker (s_delete c), [getValue others self (s_primary_key c)])]"
    and "reported db (snd (snd (remove others db c self w))) = Some r \<Longrightarrow>
         fst (remove others db c self w) = Inr ()
         \<and> warnings (snd (snd (remove others db c self w))) =
             warnings w @ (if r \<noteq> 1
               then [(WARNING,
                      (''failed to remove by primary key: affected rows: %s'', [PInt r]))]
               else [])"
proof -
  obtain res self' w' where d: "remove others db c self w = (res, self', w')"
    by (cases "remove others db c self w")
  note f = finish [OF assms d [unfolded remove_def Let_def]]
  from f(2) d show "issued (snd (snd (remove others db c self w)))
           = issued w @ [(replace_marker (s_delete c), [getValue others self (s_primary_key c)])]"
    by simp
  assume "reported db (snd (snd (remove others db c self w))) = Some r"
  with f(4) [of r] d
  show "fst (remove others db c self w) = Inr ()
         \<and> warnings (snd (snd (remove others db c self w))) =
             warnings w @ (if r \<noteq> 1
               then [(WARNING,
                      (''failed to remove by primary key: affected rows: %s'', [PInt r]))]
               else [])"
    by simp
qed

lemmas run_defs = save_def update_def remove_def execute_def getValueOrDefault_def getValue_def
  getattr_or_None_def Model_names_def dict_names_def no_others_def
  check_rows_def log_def logging_def send_def acquire_def release_def answer_def reported_def
  warnings_def replace_marker_def answers_only_def startswith_def

text \<open>
  C5. Each of \<open>save\<close>, \<open>update\<close> and \<open>remove\<close> sends its one statement; when the driver
  reports an affected-row count for that statement, the operation returns normally and
  returns nothing, and it has logged one warning with the count when the count is not 1,
  and no warning when it is. This holds of each operation by itself, whatever the driver
  does with the statements of the other two.
\<close>

theorem row_count_mismatch_only_warns:
  assumes "ModelMetaclass_new cname attrs = Inr (Mapped rest c)" and "pool w"
  shows "(\<exists>args. issued (snd (snd (save others db c self w)))
                   = issued w @ [(replace_marker (s_insert c), args)])
     \<and> (reported db (snd (snd (save others db c self w))) = Some rs \<longrightarrow>
          fst (save others db c self w) = Inr ()
          \<and> warnings (snd (snd (save others db c self w))) =
              warnings w @ (if rs \<noteq> 1
                then [(WARNING, (''failed to insert record: affected rows: %s'', [PInt rs]))]
                else []))
     \<and> (\<exists>args. issued (snd (snd (update others db c self w)))
                   = issued w @ [(replace_marker (s_update c), args)])
     \<and> (reported db (snd (snd (update others db c self w))) = Some ru \<longrightarrow>
          fst (update others db c self w) = Inr ()
          \<and> warnings (snd (snd (update others db c self w))) =
              warnings w @ (if ru \<noteq> 1
                then [(WARNING,
                       (''failed to update by primary key: affected rows: %s'', [PInt ru]))]
                else []))
     \<and> (\<exists>args. issued (snd (snd (remove others db c self w)))
                   = issued w @ [(replace_marker (s_delete c), args)])
     \<and> (reported db (snd (snd (remove others db c self w))) = Some rr \<longrightarrow>
          fst (remove others db c self w) = Inr ()
          \<and> warnings (snd (snd (remove others db c self w))) =
              warnings w @ (if rr \<noteq> 1
                then [(WARNING,
                       (''failed to remove by primary key: affected rows: %s'', [PInt rr]))]
                else []))"
  using save_end(1) [OF assms, where others = others and db = db and self = self]
    save_end(2) [OF assms, where others = others and db = db and self = self and r = rs]
    update_end(1) [OF assms(2), where others = others and db = db and c = c and self = self]
    update_end(3) [OF assms(2), where others = others and db = db and c = c and self = self
      and r = ru]
    remove_end(1) [OF assms(2), where others = others and db = db and c = c and self = self]
    remove_end(2) [OF assms(2), where others = others and db = db and c = c and self = self
      and r = rr]
  by blast


theorem row_count_mismatch_only_warns_witness:
  "fst (save no_others (answers_only ''insert'' 0) user_schema bob idle) = Inr ()
   \<and> warnings (snd (snd (save no_others (answers_only ''insert'' 0) user_schema bob idle)))
       = [(WARNING, (''failed to insert record: affected rows: %s'', [PInt 0]))]
   \<and> warnings (snd (snd (save no_others (answers_only ''insert'' 1) user_schema bob idle))) = []
   \<and> fst (update no_others (answers_only ''update'' 2) user_schema bob idle) = Inr ()
   \<and> warnings (snd (snd (update no_others (answers_only ''update'' 2) user_schema bob idle)))
       = [(WARNING, (''failed to update by primary key: affected rows: %s'', [PInt 2]))]
   \<and> warnings (snd (snd (update no_others (answers_only ''update'' 1) user_schema bob idle))) = []
   \<and> fst (remove no_others (answers_only ''delete'' 0) user_schema bob idle) = Inr ()
   \<and> warnings (snd (snd (remove no_others (answers_only ''delete'' 0) user_schema bob idle)))
       = [(WARNING, (''failed to remove by primary key: affected rows: %s'', [PInt 0]))]
   \<and> warnings (snd (snd (remove no_others (answers_only ''delete'' 1) user_schema bob idle))) = []"
proof -
  have p: "pool idle" and w: "warnings idle = []" by (simp_all add: idle_def warnings_def)
  have s: "reported (answers_only ''insert'' n)
             (snd (snd (save no_others (answers_only ''insert'' n) user_schema bob idle))) = Some n"
    for n
    by (simp add: run_defs user_schema_def bob_def idle_def field_defs Let_def)
  have u: "reported (answers_only ''update'' n)
             (snd (snd (update no_others (answers_only ''update'' n) user_schema bob idle)))
           = Some n" for n
    by (simp add: run_defs user_schema_def bob_def idle_def field_defs Let_def)
  have d: "reported (answers_only ''delete'' n)
             (snd (snd (remove no_others (answers_only ''delete'' n) user_schema bob idle)))
           = Some n" for n
    by (simp add: run_defs user_schema_def bob_def idle_def field_defs Let_def)
  note t = row_count_mismatch_only_warns [OF user_built p, where others = no_others
      and self = bob]
  show ?thesis
    using t [where db = "answers_only ''insert'' 0" and rs = 0]
      t [where db = "answers_only ''insert'' 1" and rs = 1]
      t [where db = "answers_only ''update'' 2" and ru = 2]
      t [where db = "answers_only ''update'' 1" and ru = 1]
      t [where db = "answers_only ''delete'' 0" and rr = 0]
      t [where db = "answers_only ''delete'' 1" and rr = 1]
    by (simp add: s u d w)
qed

text \<open>
  C3. For a non-key field whose name ordinary attribute lookup does not find, that is
  unset and whose declared default is not \<open>None\<close>: \<open>save\<close> sends, as the argument of
  that column, the default itself when it is a constant and what calling it returns
  when it is a callable, while \<open>update\<close> sends \<open>None\<close> for the column and leaves the
  instance as it is.
\<close>

theorem save_default_update_none:
  assumes "ModelMetaclass_new cname attrs = Inr (Mapped rest c)" and "pool w"
    and "i < length (s_fields c)"
    and "map_of (s_mappings c) (s_fields c ! i) = Some fld"
    and "default_value fld \<noteq> PNone"
    and "self (s_fields c ! i) = None \<or> self (s_fields c ! i) = Some PNone"
    and "others (s_fields c ! i) = None"
    and "s_fields c ! i \<notin> set Model_names" and "s_fields c ! i \<notin> set dict_names"
  shows "(\<exists>args. issued (snd (snd (save others db c self w)))
                   = issued w @ [(replace_marker (s_insert c), args)]
            \<and> length args = length (s_fields c) + 1
            \<and> (case default_value fld of
                  PCallable r \<Rightarrow> args ! i = r
                | d \<Rightarrow> args ! i = d))
     \<and> (\<exists>args. issued (snd (snd (update others db c self w)))
                   = issued w @ [(replace_marker (s_update c), args)]
            \<and> length args = length (s_fields c) + 1
            \<and> args ! i = PNone)
     \<and> fst (snd (update others db c self w)) = self"
proof -
  note k = built_keys [OF assms(1)]
  obtain args self1 w1 v self2 w2 where
    g: "getValuesOrDefault others c (s_fields c) self w = (Inr args, self1, w1)"
    and l: "length args = length (s_fields c)"
    and w2: "pool w2 = pool w" "issued w2 = issued w"
    and s: "save others db c self w =
       (case execute db (s_insert c) (args @ [v]) w2 of
          (Inl e, w3) \<Rightarrow> (Inl e, self2, w3)
        | (Inr rows, w3) \<Rightarrow>
            (Inr (), self2, check_rows ''failed to insert record: affected rows: %s'' rows w3))"
    by (rule save_steps [OF k, of others self w db]) blast
  have none: "getattr_or_None others self (s_fields c ! i) = PNone"
    using assms(6-9) by (auto simp: getattr_or_None_def)
  then have unset: "getattr_or_None others self (s_fields c ! i) = PNone
      \<or> getattr_or_None others self (s_fields c ! i) = use_default (default_value fld)"
    by simp
  have n: "args ! i = use_default (default_value fld)"
    by (rule getValuesOrDefault_nth [OF assms(4,5) unset g assms(3)]) simp
  have pinned: "case default_value fld of PCallable r \<Rightarrow> (args @ [v]) ! i = r
                | d \<Rightarrow> (args @ [v]) ! i = d"
    using n l assms(3) by (cases "default_value fld") (simp_all add: nth_append)
  obtain res self' w' where r: "save others db c self w = (res, self', w')"
    by (cases "save others db c self w")
  from assms(2) w2 have p2: "pool w2" by simp
  from finish(2) [OF p2 r [unfolded s]] r w2
  have "issued (snd (snd (save others db c self w)))
          = issued w @ [(replace_marker (s_insert c), args @ [v])]"
    by simp
  moreover have "length (args @ [v]) = length (s_fields c) + 1" using l by simp
  ultimately have 1: "\<exists>args. issued (snd (snd (save others db c self w)))
                   = issued w @ [(replace_marker (s_insert c), args)]
            \<and> length args = length (s_fields c) + 1
            \<and> (case default_value fld of
                  PCallable r \<Rightarrow> args ! i = r
                | d \<Rightarrow> args ! i = d)"
    using pinned by blast
  let ?ua = "map (getValue others self) (s_fields c) @ [getValue others self (s_primary_key c)]"
  have "?ua ! i = PNone" using assms(3) none by (simp add: nth_append getValue_def)
  moreover have "length ?ua = length (s_fields c) + 1" by simp
  ultimately have 2: "\<exists>args. issued (snd (snd (update others db c self w)))
                   = issued w @ [(replace_marker (s_update c), args)]
            \<and> length args = length (s_fields c) + 1
            \<and> args ! i = PNone"
    using update_end(1) [OF assms(2), of others db c self] by blast
  from 1 2 update_end(2) [OF assms(2), of others db c self] show ?thesis by blast
qed

theorem save_default_update_none_witness:
  "(\<exists>args. issued (snd (snd (save no_others (answer [] 1) tag_schema unset idle)))
        = [(''insert into `Tag` (`label`, `keys`, `id`) values (%s, %s, %s)'', args)]
      \<and> args ! 0 = PStr ''new'')
   \<and> (\<exists>args. issued (snd (snd (update no_others (answer [] 1) tag_schema unset idle)))
        = [(''update `Tag` set `label`=%s, `keys`=%s where `id`=%s'', args)]
      \<and> args ! 0 = PNone)
   \<and> (\<exists>args. issued (snd (snd (save no_others (answer [] 1) user_schema bob idle)))
        = [(''insert into `users` (`name`, `admin`, `id`) values (%s, %s, %s)'', args)]
      \<and> args ! 1 = PBool False)
   \<and> (\<exists>args. issued (snd (snd (update no_others (answer [] 1) user_schema bob idle)))
        = [(''update `users` set `user_name`=%s, `admin`=%s where `id`=%s'', args)]
      \<and> args ! 1 = PNone)"
proof -
  have p: "pool idle" and z: "issued idle = []" by (simp_all add: idle_def)
  have i0: "0 < length (s_fields tag_schema)" and i1: "1 < length (s_fields user_schema)"
    by (simp_all add: tag_schema_def user_schema_def)
  have m0: "map_of (s_mappings tag_schema) (s_fields tag_schema ! 0)
             = Some (StringField None False (PCallable (PStr ''new'')) ''varchar(50)'')"
    and m1: "map_of (s_mappings user_schema) (s_fields user_schema ! 1)
             = Some (BooleanField None (PBool False))"
    by (simp_all add: tag_schema_def user_schema_def)
  have d0: "default_value (StringField None False (PCallable (PStr ''new'')) ''varchar(50)'')
              = PCallable (PStr ''new'')"
    and d1: "default_value (BooleanField None (PBool False)) = PBool False"
    by (simp_all add: field_defs)
  have u0: "unset (s_fields tag_schema ! 0) = None \<or> unset (s_fields tag_schema ! 0) = Some PNone"
    and u1: "bob (s_fields user_schema ! 1) = None \<or> bob (s_fields user_schema ! 1) = Some PNone"
    by (simp_all add: tag_schema_def user_schema_def unset_def bob_def)
  have o0: "no_others (s_fields tag_schema ! 0) = None"
    and o1: "no_others (s_fields user_schema ! 1) = None"
    by (simp_all add: no_others_def)
  have n0: "s_fields tag_schema ! 0 \<notin> set Model_names" "s_fields tag_schema ! 0 \<notin> set dict_names"
    and n1: "s_fields user_schema ! 1 \<notin> set Model_names"
      "s_fields user_schema ! 1 \<notin> set dict_names"
    by (simp_all add: tag_schema_def user_schema_def Model_names_def dict_names_def)
  have s: "replace_marker (s_insert tag_schema)
             = ''insert into `Tag` (`label`, `keys`, `id`) values (%s, %s, %s)''"
    "replace_marker (s_update tag_schema)
             = ''update `Tag` set `label`=%s, `keys`=%s where `id`=%s''"
    "replace_marker (s_insert user_schema)
             = ''insert into `users` (`name`, `admin`, `id`) values (%s, %s, %s)''"
    "replace_marker (s_update user_schema)
             = ''update `users` set `user_name`=%s, `admin`=%s where `id`=%s''"
    by (simp_all add: tag_schema_def user_schema_def replace_marker_def)
  have ne0: "default_value (StringField None False (PCallable (PStr ''new'')) ''varchar(50)'')
               \<noteq> PNone"
    and ne1: "default_value (BooleanField None (PBool False)) \<noteq> PNone"
    by (simp_all add: field_defs)
  from save_default_update_none [where c = tag_schema and self = unset and others = no_others
      and i = 0 and w = idle and db = "answer [] 1", OF tag_built p i0 m0 ne0 u0 o0 n0]
  have a: "(\<exists>args. issued (snd (snd (save no_others (answer [] 1) tag_schema unset idle)))
        = [(''insert into `Tag` (`label`, `keys`, `id`) values (%s, %s, %s)'', args)]
      \<and> args ! 0 = PStr ''new'')
   \<and> (\<exists>args. issued (snd (snd (update no_others (answer [] 1) tag_schema unset idle)))
        = [(''update `Tag` set `label`=%s, `keys`=%s where `id`=%s'', args)]
      \<and> args ! 0 = PNone)"
    by (auto simp: s z d0)
  from save_default_update_none [where c = user_schema and self = bob and others = no_others
      and i = 1 and w = idle and db = "answer [] 1", OF user_built p i1 m1 ne1 u1 o1 n1]
  have b: "(\<exists>args. issued (snd (snd (save no_others (answer [] 1) user_schema bob idle)))
        = [(''insert into `users` (`name`, `admin`, `id`) values (%s, %s, %s)'', args)]
      \<and> args ! 1 = PBool False)
   \<and> (\<exists>args. issued (snd (snd (update no_others (answer [] 1) user_schema bob idle)))
        = [(''update `users` set `user_name`=%s, `admin`=%s where `id`=%s'', args)]
      \<and> args ! 1 = PNone)"
    by (auto simp: s z d1)
  from a b show ?thesis by blast
qed

text \<open>
  C3 does not hold of every field: for an unset field named \<open>keys\<close>, lookup finds the
  method of \<open>dict\<close>, which is not \<open>None\<close>, so \<open>save\<close> sends the method and not the
  declared default \<open>'none'\<close>, and \<open>update\<close> sends the method and not \<open>None\<close>.
\<close>

theorem save_default_counterexample:
  "issued (snd (snd (save no_others (answer [] 1) tag_schema unset idle)))
     = [(''insert into `Tag` (`label`, `keys`, `id`) values (%s, %s, %s)'',
         [PStr ''new'', PMethod ''keys'', PInt 0])]
   \<and> PMethod ''keys'' \<noteq> PStr ''none''
   \<and> issued (snd (snd (update no_others (answer [] 1) tag_schema unset idle)))
     = [(''update `Tag` set `label`=%s, `keys`=%s where `id`=%s'',
         [PNone, PMethod ''keys'', PNone])]
   \<and> PMethod ''keys'' \<noteq> PNone"
  by (simp add: run_defs tag_schema_def unset_def idle_def field_defs Let_def)

section \<open>The position of the request parameter\<close>

lemma request_loop_found:
  "''request'' \<notin> set (map pname ps) \<Longrightarrow>
   request_loop fname True ps =
     (if list_all (\<lambda>p. after_request (pkind p)) ps then Inr True
      else Inl (ValueError
             (''request parameter must be the last named parameter in function: %s%s'',
              [PStr fname])))"
proof (induction ps)
  case (Cons p ps)
  then show ?case by (cases "pkind p") auto
qed simp

lemma request_loop_before:
  "''request'' \<notin> set (map pname pre) \<Longrightarrow>
   request_loop fname False (pre @ rest) = request_loop fname False rest"
  by (induction pre) auto

text \<open>
  C6. For a function with a parameter named \<open>request\<close> (parameter names are
  distinct), building the handler succeeds, with the flag set, when every parameter
  after \<open>request\<close> is \<open>*args\<close>, keyword-only or \<open>**kw\<close>, and raises \<open>ValueError\<close> when
  one of them is a plain positional parameter. The check is made when the handler is
  built: a call reads the stored flags, and its outcome does not depend on the
  parameter list.
\<close>

theorem request_position_check:
  assumes "params f = earlier @ [r] @ later" and "pname r = ''request''"
    and "''request'' \<notin> set (map pname earlier)" and "''request'' \<notin> set (map pname later)"
  shows "has_request_arg f =
           (if list_all (\<lambda>p. after_request (pkind p)) later then Inr True else Inl (misplaced f))
     \<and> (if list_all (\<lambda>p. after_request (pkind p)) later
         then (\<exists>h. RequestHandler_init f = Inr h \<and> h_has_request_arg h \<and> h_func h = f)
         else RequestHandler_init f = Inl (misplaced f))
     \<and> (\<forall>h ps parse_qs req.
           RequestHandler_call (h\<lparr>h_func := (h_func h)\<lparr>params := ps\<rparr>\<rparr>) parse_qs req
             = RequestHandler_call h parse_qs req)"
proof -
  have 1: "has_request_arg f =
           (if list_all (\<lambda>p. after_request (pkind p)) later then Inr True else Inl (misplaced f))"
    using assms
    by (simp add: has_request_arg_def request_loop_before request_loop_found misplaced_def)
  have 2: "RequestHandler_call (h\<lparr>h_func := (h_func h)\<lparr>params := ps\<rparr>\<rparr>) parse_qs req
           = RequestHandler_call h parse_qs req" for h ps parse_qs req
  proof -
    let ?h = "h\<lparr>h_func := (h_func h)\<lparr>params := ps\<rparr>\<rparr>"
    have r: "read_kw ?h parse_qs req = read_kw h parse_qs req"
      unfolding read_kw_def by simp
    have m: "merge_match_info ?h req kw0 = merge_match_info h req kw0" for kw0
      unfolding merge_match_info_def by (cases kw0) simp_all
    have b: "bind_kw ?h parse_qs req = bind_kw h parse_qs req"
      unfolding bind_kw_def r m by (simp split: sum.splits)
    have c: "call_func (h_func ?h) kw = call_func (h_func h) kw" for kw
      unfolding call_func_def by simp
    show ?thesis unfolding RequestHandler_call_def b c
      by (simp split: sum.splits option.splits)
  qed
  from 1 show ?thesis by (simp add: RequestHandler_init_def 2)
qed

theorem request_position_check_witness:
  "has_request_arg (a_fn ''index''
       [a_param ''request'' POSITIONAL_OR_KEYWORD False, a_param ''kw'' VAR_KEYWORD False])
     = Inr True
   \<and> (\<exists>h. RequestHandler_init (a_fn ''index''
       [a_param ''request'' POSITIONAL_OR_KEYWORD False, a_param ''kw'' VAR_KEYWORD False])
         = Inr h \<and> h_has_request_arg h)
   \<and> RequestHandler_init (a_fn ''index''
       [a_param ''request'' POSITIONAL_OR_KEYWORD False,
        a_param ''page'' POSITIONAL_OR_KEYWORD True])
     = Inl (misplaced (a_fn ''index''
       [a_param ''request'' POSITIONAL_OR_KEYWORD False,
        a_param ''page'' POSITIONAL_OR_KEYWORD True]))"
proof -
  let ?r = "a_param ''request'' POSITIONAL_OR_KEYWORD False"
  let ?k = "a_param ''kw'' VAR_KEYWORD False"
  let ?p = "a_param ''page'' POSITIONAL_OR_KEYWORD True"
  have a: "params (a_fn ''index'' [?r, ?k]) = [] @ [?r] @ [?k]"
    and b: "params (a_fn ''index'' [?r, ?p]) = [] @ [?r] @ [?p]"
    by (simp_all add: a_fn_def)
  have n: "pname ?r = ''request''" by (simp add: a_param_def)
  have e: "''request'' \<notin> set (map pname [])" by simp
  have k: "''request'' \<notin> set (map pname [?k])" and p: "''request'' \<notin> set (map pname [?p])"
    by (simp_all add: a_param_def)
  have v: "after_request (pkind ?k)" "\<not> after_request (pkind ?p)"
    by (simp_all add: a_param_def)
  from request_position_check [OF a n e k] v(1)
  have 1: "has_request_arg (a_fn ''index'' [?r, ?k]) = Inr True"
    and 2: "\<exists>h. RequestHandler_init (a_fn ''index'' [?r, ?k]) = Inr h \<and> h_has_request_arg h"
    by auto
  from request_position_check [OF b n e p] v(2)
  have 3: "RequestHandler_init (a_fn ''index'' [?r, ?p])
             = Inl (misplaced (a_fn ''index'' [?r, ?p]))"
    by simp
  from 1 2 3 show ?thesis by blast
qed


section \<open>The keyword mapping of a request\<close>

lemma store_all_map: "store_all xs kw = kw ++ map_of (rev xs)"
proof (induction xs arbitrary: kw)
  case (Cons x xs)
  obtain k v where x: "x = (k, v)" by (cases x)
  have "store_all (x # xs) kw = store_all xs (kw(k \<mapsto> v))"
    by (simp add: store_all_def x)
  also have "\<dots> = kw(k \<mapsto> v) ++ map_of (rev xs)" by (rule Cons.IH)
  also have "\<dots> = kw ++ map_of (rev (x # xs))"
    by (auto simp: x map_add_def fun_eq_iff split: option.splits)
  finally show ?case .
qed (simp add: store_all_def)

lemma map_of_rev_as_strs:
  "map_of (rev (as_strs mi)) k = path_value mi k"
  by (simp add: as_strs_def path_value_def rev_map map_of_map)

lemma first_values_map:
  "list_all (\<lambda>(k, vs). vs \<noteq> []) qs \<Longrightarrow>
   first_values qs kw =
     Inr (\<lambda>k. case query_value qs k of Some v \<Rightarrow> Some v | None \<Rightarrow> kw k)"
proof (induction qs arbitrary: kw)
  case Nil
  then show ?case by (simp add: query_value_def)
next
  case (Cons q qs)
  obtain k vs where q: "q = (k, vs)" by (cases q)
  with Cons.prems obtain x xs where vs: "vs = x # xs" by (cases vs) auto
  from Cons.prems have rest: "list_all (\<lambda>(k, vs). vs \<noteq> []) qs" by simp
  have ne: "map_of (rev qs) k' \<noteq> Some []" for k'
    using rest by (auto dest!: map_of_SomeD simp: list_all_iff)
  have e: "(\<lambda>k'. case query_value qs k' of
                   Some v \<Rightarrow> Some v | None \<Rightarrow> (kw(k \<mapsto> Val (PStr x))) k')
         = (\<lambda>k'. case query_value (q # qs) k' of Some v \<Rightarrow> Some v | None \<Rightarrow> kw k')"
    using ne by (intro ext) (auto simp: query_value_def q vs map_add_def split: option.splits list.splits)
  have "first_values (q # qs) kw = first_values qs (kw(k \<mapsto> Val (PStr x)))"
    by (simp add: q vs)
  also have "\<dots> = Inr (\<lambda>k'. case query_value qs k' of
                   Some v \<Rightarrow> Some v | None \<Rightarrow> (kw(k \<mapsto> Val (PStr x))) k')"
    by (rule Cons.IH [OF rest])
  finally show ?case by (simp only: e)
qed

lemma first_values_empty:
  "list_all (\<lambda>(k, vs). vs \<noteq> []) qs \<Longrightarrow> first_values qs Map.empty = Inr (query_value qs)"
  by (simp add: first_values_map fun_eq_iff split: option.splits)

lemma copy_named_map:
  "copy_named ns kw copy =
     (\<lambda>k. if k \<in> set ns then (case kw k of Some v \<Rightarrow> Some v | None \<Rightarrow> copy k) else copy k)"
  by (induction ns arbitrary: copy) (auto simp: fun_eq_iff split: option.splits)

lemma named_kw_loop_filter:
  "named_kw_loop ps args = args @ map pname (filter (\<lambda>p. pkind p = KEYWORD_ONLY) ps)"
  by (induction ps arbitrary: args) simp_all

lemma has_kind_filter: "has_kind k ps \<longleftrightarrow> filter (\<lambda>p. pkind p = k) ps \<noteq> []"
  by (induction ps) simp_all

lemma named_nonempty: "has_named_kw_args f \<longleftrightarrow> get_named_kw_args f \<noteq> []"
  by (simp add: has_named_kw_args_def get_named_kw_args_def named_kw_loop_filter has_kind_filter)

lemma init_fields:
  assumes "RequestHandler_init f = Inr h"
  shows "h_has_var_kw_arg h = has_var_kw_arg f" "h_has_named_kw_args h = has_named_kw_args f"
    "h_named_kw_args h = get_named_kw_args f" "h_required_kw_args h = get_required_kw_args f"
    "h_func h = f" "has_request_arg f = Inr (h_has_request_arg h)"
  using assms by (auto simp: RequestHandler_init_def split: sum.splits)

lemma named_keyword_only: "get_named_kw_args f = keyword_only_names f"
  by (simp add: get_named_kw_args_def keyword_only_names_def named_kw_loop_filter)

lemma has_var_kw_arg_iff: "has_var_kw_arg f \<longleftrightarrow> VAR_KEYWORD \<in> set (map pkind (params f))"
proof -
  have "has_kind k ps \<longleftrightarrow> k \<in> set (map pkind ps)" for k ps
    by (induction ps) auto
  then show ?thesis by (simp add: has_var_kw_arg_def)
qed

text \<open>
  C7. For a GET request with a query string that is not empty, and a handler whose
  function has keyword-only parameters and no \<open>**kw\<close>: the keyword mapping holds the
  path parameters, and beside them the first query value of each key that is the name
  of a keyword-only parameter and not a path parameter; no other query key is in it,
  be it the name of another parameter or of none. The request itself is stored under
  \<open>request\<close> when the function has that parameter.
\<close>

theorem query_args_filtered:
  assumes "RequestHandler_init f = Inr h"
    and "keyword_only_names f \<noteq> []" and "VAR_KEYWORD \<notin> set (map pkind (params f))"
    and "http_method req = ''GET''" and "query_string req \<noteq> []"
    and "list_all (\<lambda>(k, vs). vs \<noteq> []) (parse_qs (query_string req))"
  shows "bind_kw h parse_qs req =
     Inr (let kw = (\<lambda>k. case path_value (match_info req) k of
                          Some v \<Rightarrow> Some v
                        | None \<Rightarrow>
                            if k \<in> set (keyword_only_names f)
                            then query_value (parse_qs (query_string req)) k else None)
          in if h_has_request_arg h then kw(''request'' \<mapsto> Req req) else kw)"
proof -
  note i = init_fields [OF assms(1)]
  from assms(2) have ne: "get_named_kw_args f \<noteq> []" and n: "has_named_kw_args f"
    by (simp_all add: named_nonempty named_keyword_only)
  from assms(3) have v: "\<not> has_var_kw_arg f" by (simp add: has_var_kw_arg_iff)
  have g: "''GET'' \<noteq> ''POST''" by simp
  have r: "read_kw h parse_qs req =
     Inr (Some (\<lambda>k. query_value (parse_qs (query_string req)) k))"
    using n assms(4,5) g
    by (simp add: read_kw_def i first_values_empty [OF assms(6)])
  have m: "merge_match_info h req (Some (\<lambda>k. query_value (parse_qs (query_string req)) k))
     = (\<lambda>k. case path_value (match_info req) k of
                Some v \<Rightarrow> Some v
              | None \<Rightarrow>
                  if k \<in> set (keyword_only_names f)
                  then query_value (parse_qs (query_string req)) k else None)"
    using v ne
    by (auto simp: merge_match_info_def i store_all_map copy_named_map map_add_def fun_eq_iff
          map_of_rev_as_strs named_keyword_only split: option.splits)
  show ?thesis
    unfolding bind_kw_def r by (simp add: m Let_def)
qed

theorem query_args_filtered_witness:
  "\<exists>h. RequestHandler_init search = Inr h
     \<and> bind_kw h parsed
          ((a_request ''GET'' [] ''name=Bob&age=30&page=2'')\<lparr>match_info := [(''id'', ''7'')]\<rparr>)
         = Inr [''name'' \<mapsto> Val (PStr ''Bob''), ''id'' \<mapsto> Val (PStr ''7'')]"
proof -
  let ?req = "(a_request ''GET'' [] ''name=Bob&age=30&page=2'')\<lparr>match_info := [(''id'', ''7'')]\<rparr>"
  obtain h where h: "RequestHandler_init search = Inr h" "\<not> h_has_request_arg h"
    by (simp add: RequestHandler_init_def has_request_arg_def search_def a_fn_def a_param_def)
  have names: "keyword_only_names search = [''name'', ''email'']"
    and v: "VAR_KEYWORD \<notin> set (map pkind (params search))"
    by (simp_all add: keyword_only_names_def search_def a_fn_def a_param_def)
  then have n: "keyword_only_names search \<noteq> []" by simp
  have m: "http_method ?req = ''GET''" and q: "query_string ?req \<noteq> []"
    and p: "list_all (\<lambda>(k, vs). vs \<noteq> []) (parsed (query_string ?req))"
    by (simp_all add: a_request_def parsed_def)
  have e: "(\<lambda>k. case path_value (match_info ?req) k of
                  Some v \<Rightarrow> Some v
                | None \<Rightarrow>
                    if k \<in> set (keyword_only_names search)
                    then query_value (parsed (query_string ?req)) k else None)
           = [''name'' \<mapsto> Val (PStr ''Bob''), ''id'' \<mapsto> Val (PStr ''7'')]"
    by (rule ext)
       (simp add: names a_request_def parsed_def path_value_def query_value_def)
  from query_args_filtered [where parse_qs = parsed and req = ?req, OF h(1) n v m q p] h
  show ?thesis
    by (simp only: e Let_def if_False) blast
qed

section \<open>The body of a POST request\<close>

lemma HTTPBadRequest_raises:
  "HTTPBadRequest msg
     = Failed (TypeError ''__init__() takes 1 positional argument but 2 were given'')"
  by (simp add: HTTPBadRequest_def)

lemma read_kw_ends:
  "read_kw h parse_qs req = Inl out \<Longrightarrow> RequestHandler_call h parse_qs req = out"
  by (simp add: RequestHandler_call_def bind_kw_def)

text \<open>
  The paths of a POST request to a handler that takes keyword arguments: without a
  content type, with a JSON body that decodes to a value that is not a dictionary and
  with a content type of no known form, the call ends where the module constructs
  \<open>web.HTTPBadRequest\<close> with its message, before the function is called; a body that
  does not decode ends it with the exception of \<open>request.json()\<close>; a url-encoded or
  multipart body becomes the keyword mapping, each key with its first value.
\<close>

lemma post_body_paths:
  assumes "h_has_var_kw_arg h \<or> h_has_named_kw_args h \<or> h_required_kw_args h \<noteq> []"
    and "http_method req = ''POST''"
  shows "content_type req = [] \<Longrightarrow>
           RequestHandler_call h parse_qs req = HTTPBadRequest ''Missing Content-Type.''"
    and "content_type req \<noteq> [] \<Longrightarrow> startswith (lower (content_type req)) ''application/json''
         \<Longrightarrow> json req = Inr v \<Longrightarrow> \<not> is_dict v \<Longrightarrow>
           RequestHandler_call h parse_qs req = HTTPBadRequest ''JSON body must be object.''"
    and "content_type req \<noteq> [] \<Longrightarrow> startswith (lower (content_type req)) ''application/json''
         \<Longrightarrow> json req = Inl e \<Longrightarrow>
           RequestHandler_call h parse_qs req = Failed e"
    and "content_type req \<noteq> [] \<Longrightarrow> \<not> startswith (lower (content_type req)) ''application/json''
         \<Longrightarrow> startswith (lower (content_type req)) ''application/x-www-form-urlencoded''
               \<or> startswith (lower (content_type req)) ''multipart/form-data''
         \<Longrightarrow> post req = Inr ps \<Longrightarrow>
           read_kw h parse_qs req = Inr (Some (\<lambda>k. map_option Val (map_of ps k)))"
    and "content_type req \<noteq> [] \<Longrightarrow> \<not> startswith (lower (content_type req)) ''application/json''
         \<Longrightarrow> \<not> startswith (lower (content_type req)) ''application/x-www-form-urlencoded''
         \<Longrightarrow> \<not> startswith (lower (content_type req)) ''multipart/form-data'' \<Longrightarrow>
           RequestHandler_call h parse_qs req
             = HTTPBadRequest (''Unsupported Content-Type: '' @ content_type req)"
proof -
  show "content_type req = [] \<Longrightarrow>
           RequestHandler_call h parse_qs req = HTTPBadRequest ''Missing Content-Type.''"
    using assms by (intro read_kw_ends) (simp add: read_kw_def)
  show "content_type req \<noteq> [] \<Longrightarrow> startswith (lower (content_type req)) ''application/json''
         \<Longrightarrow> json req = Inr v \<Longrightarrow> \<not> is_dict v \<Longrightarrow>
           RequestHandler_call h parse_qs req = HTTPBadRequest ''JSON body must be object.''"
    using assms by (intro read_kw_ends) (cases v; simp add: read_kw_def)
  show "content_type req \<noteq> [] \<Longrightarrow> startswith (lower (content_type req)) ''application/json''
         \<Longrightarrow> json req = Inl e \<Longrightarrow>
           RequestHandler_call h parse_qs req = Failed e"
    using assms by (intro read_kw_ends) (simp add: read_kw_def)
  have vals: "map_of (as_vals ps) k = map_option Val (map_of ps k)" for k
    by (simp add: as_vals_def map_of_map)
  show "content_type req \<noteq> [] \<Longrightarrow> \<not> startswith (lower (content_type req)) ''application/json''
         \<Longrightarrow> startswith (lower (content_type req)) ''application/x-www-form-urlencoded''
               \<or> startswith (lower (content_type req)) ''multipart/form-data''
         \<Longrightarrow> post req = Inr ps \<Longrightarrow>
           read_kw h parse_qs req = Inr (Some (\<lambda>k. map_option Val (map_of ps k)))"
    using assms by (auto simp: read_kw_def dict_of_def vals fun_eq_iff)
  show "content_type req \<noteq> [] \<Longrightarrow> \<not> startswith (lower (content_type req)) ''application/json''
         \<Longrightarrow> \<not> startswith (lower (content_type req)) ''application/x-www-form-urlencoded''
         \<Longrightarrow> \<not> startswith (lower (content_type req)) ''multipart/form-data'' \<Longrightarrow>
           RequestHandler_call h parse_qs req
             = HTTPBadRequest (''Unsupported Content-Type: '' @ content_type req)"
    using assms by (intro read_kw_ends) (simp add: read_kw_def)
qed

text \<open>
  C8. A POST request with the content type \<open>text/plain\<close>, to a handler that takes
  keyword arguments, is to be answered with a response of status 400 that names the
  content type. The module constructs \<open>web.HTTPBadRequest\<close> with the message as a
  positional argument, which the constructor does not take: the call of the handler
  ends with \<open>TypeError\<close>, and no response is made. The paths for a missing content type
  and for a JSON body that is not an object end the same way.
\<close>

theorem unsupported_content_type_raises:
  "map_sum id (\<lambda>h. RequestHandler_call h parsed (a_request ''POST'' ''text/plain'' []))
       (RequestHandler_init greet)
     = Inr (Failed (TypeError ''__init__() takes 1 positional argument but 2 were given''))"
proof -
  have i: "RequestHandler_init greet =
      Inr \<lparr>h_func = greet, h_has_request_arg = False, h_has_var_kw_arg = False,
           h_has_named_kw_args = True, h_named_kw_args = [''name'', ''email''],
           h_required_kw_args = [''name'']\<rparr>"
    by (simp add: RequestHandler_init_def has_request_arg_def has_var_kw_arg_def
          has_named_kw_args_def get_named_kw_args_def get_required_kw_args_def greet_def
          a_fn_def a_param_def)
  have low: "lower ''text/plain'' = ''text/plain''"
    by (simp add: lower_def lower_char_def)
  show ?thesis
    unfolding i
    by (simp add: RequestHandler_call_def bind_kw_def read_kw_def a_request_def low
          startswith_def HTTPBadRequest_def)
qed

end
